theory Spec2Isabelle
  imports Complex_Main "HOL-Library.Sublist"
begin

section \<open>Coordinator API client: URL normalisation\<close>

text \<open>
  Go strings are byte sequences; \<^typ>\<open>string\<close> is a list of 8-bit characters, so the
  two agree. \<open>strings.TrimRight s cutset\<close> removes every trailing byte that occurs in
  \<open>cutset\<close> (for an ASCII cutset, bytes and code points coincide), and
  \<open>strings.HasSuffix\<close> is written as in the Go library:
  \<^verbatim>\<open>len(s) >= len(suffix) && s[len(s)-len(suffix):] == suffix\<close>.
\<close>

definition TrimRight :: "string \<Rightarrow> string \<Rightarrow> string" where
  "TrimRight s cutset = rev (dropWhile (\<lambda>c. c \<in> set cutset) (rev s))"

definition HasSuffix :: "string \<Rightarrow> string \<Rightarrow> bool" where
  "HasSuffix s suf \<longleftrightarrow> length suf \<le> length s \<and> drop (length s - length suf) s = suf"

text \<open>
  \<^verbatim>\<open>
  func fixCIURL(url string) string {
      url = strings.TrimRight(url, "/")
      if !strings.HasSuffix(url, "/ci") { url += "/ci" }
      return url
  }
  \<close>
\<close>

definition fixCIURL :: "string \<Rightarrow> string" where
  "fixCIURL url =
     (let url1 = TrimRight url ''/''
      in if \<not> HasSuffix url1 ''/ci'' then url1 @ ''/ci'' else url1)"

section \<open>Cluster connection resolver\<close>

text \<open>Go's \<open>error\<close> values are modelled by their message text.\<close>

type_synonym error = string

text \<open>
  The four fields of \<open>common.KubernetesConfig\<close> that the resolver reads, and the part
  of \<open>restclient.Config\<close> that it fills in (every other field keeps its zero value).
\<close>

record KubernetesConfig =
  Host :: string
  CertFile :: string
  KeyFile :: string
  CAFile :: string

record TLSClientConfig =
  tls_CertFile :: string
  tls_KeyFile :: string
  tls_CAFile :: string

record restclient_Config =
  rc_Host :: string
  rc_TLSClientConfig :: TLSClientConfig

definition zero_TLSClientConfig :: TLSClientConfig where
  "zero_TLSClientConfig = \<lparr>tls_CertFile = [], tls_KeyFile = [], tls_CAFile = []\<rparr>"

text \<open>
  \<open>getKubeClientConfig\<close>: the \<open>switch\<close> takes the first case whose condition holds.
  \<open>restclient.InClusterConfig()\<close> belongs to the Kubernetes client library; its
  result is the parameter \<open>InClusterConfig\<close>.
\<close>

definition getKubeClientConfig ::
  "error + restclient_Config \<Rightarrow> KubernetesConfig \<Rightarrow> error + restclient_Config" where
  "getKubeClientConfig InClusterConfig config =
     (if length (CertFile config) > 0 then
        (if length (KeyFile config) = 0 \<or> length (CAFile config) = 0
         then Inl ''ca file, cert file and key file must be specified when using file based auth''
         else Inr \<lparr>rc_Host = Host config,
                   rc_TLSClientConfig = \<lparr>tls_CertFile = CertFile config,
                                          tls_KeyFile = KeyFile config,
                                          tls_CAFile = CAFile config\<rparr>\<rparr>)
      else if length (Host config) > 0 then
        Inr \<lparr>rc_Host = Host config, rc_TLSClientConfig = zero_TLSClientConfig\<rparr>
      else InClusterConfig)"

section \<open>Resource spec builder\<close>

text \<open>
  \<open>api.ResourceName\<close> is a string type and \<open>api.ResourceList\<close> a map from it to
  quantities; the two keys are the constants of the Kubernetes API package.
\<close>

type_synonym ResourceName = string

definition ResourceLimitsCPU :: ResourceName where
  "ResourceLimitsCPU = ''limits.cpu''"

definition ResourceLimitsMemory :: ResourceName where
  "ResourceLimitsMemory = ''limits.memory''"

type_synonym 'q ResourceList = "ResourceName \<rightharpoonup> 'q"

text \<open>
  The closure \<open>parse\<close> inside \<open>limits\<close>. The quantity pointer it returns is
  \<open>None\<close> for \<open>nil\<close>. \<open>resource.ParseQuantity\<close> is a function of the Kubernetes
  library and is the parameter \<open>ParseQuantity\<close>: it returns either an error or a
  quantity.
\<close>

definition parse :: "(string \<Rightarrow> error + 'q) \<Rightarrow> string \<Rightarrow> error + 'q option" where
  "parse ParseQuantity s =
     (if length s = 0 then Inr None
      else case ParseQuantity s of
             Inl err \<Rightarrow> Inl (''error parsing resource limit: '' @ err)
           | Inr q \<Rightarrow> Inr (Some q))"

text \<open>
  \<open>limits\<close> returns a pair (resource list, error); the error is \<open>None\<close> for \<open>nil\<close>.
  Both failure branches are written in the source as
  \<^verbatim>\<open>return api.ResourceList{}, nil\<close>.
\<close>

definition limits ::
  "(string \<Rightarrow> error + 'q) \<Rightarrow> string \<Rightarrow> string \<Rightarrow> 'q ResourceList \<times> error option" where
  "limits ParseQuantity cpu memory =
     (case parse ParseQuantity cpu of
        Inl err \<Rightarrow> (Map.empty, None)
      | Inr rCPU \<Rightarrow>
          (case parse ParseQuantity memory of
             Inl err \<Rightarrow> (Map.empty, None)
           | Inr rMem \<Rightarrow>
               (let l = Map.empty;
                    l = (case rCPU of Some q \<Rightarrow> l(ResourceLimitsCPU \<mapsto> q) | None \<Rightarrow> l);
                    l = (case rMem of Some q \<Rightarrow> l(ResourceLimitsMemory \<mapsto> q) | None \<Rightarrow> l)
                in (l, None))))"

subsection \<open>A quantity parser for the suffix notation\<close>

text \<open>
  Modelled from the spec: \<open>resource.ParseQuantity\<close> is a function of the Kubernetes
  library, which is not part of the sources. The spec describes a quantity string as a
  number in standard suffix notation (a milli-unit suffix, binary byte multiples); the
  parser below reads the fragment "unsigned decimal integer, then a decimal or binary
  suffix", which has exact values, and reports everything else as an error. It is used
  only to evaluate \<open>limits\<close> on concrete strings: \<open>limits\<close> itself takes the parser
  as a parameter and the theorems about it hold for every parser.
\<close>

datatype Format = DecimalExponent | BinarySI | DecimalSI

record Quantity =
  Amount :: rat
  Format :: Format

definition is_digit :: "char \<Rightarrow> bool" where
  "is_digit c \<longleftrightarrow> 48 \<le> (of_char c :: nat) \<and> (of_char c :: nat) \<le> 57"

definition digits_value :: "string \<Rightarrow> nat" where
  "digits_value ds = foldl (\<lambda>acc c. 10 * acc + ((of_char c :: nat) - 48)) 0 ds"

definition suffix_scale :: "string \<Rightarrow> (rat \<times> Format) option" where
  "suffix_scale suf =
     (if suf = [] then Some (1, DecimalSI)
      else if suf = ''m'' then Some (1 / 1000, DecimalSI)
      else if suf = ''k'' then Some (10 ^ 3, DecimalSI)
      else if suf = ''M'' then Some (10 ^ 6, DecimalSI)
      else if suf = ''G'' then Some (10 ^ 9, DecimalSI)
      else if suf = ''T'' then Some (10 ^ 12, DecimalSI)
      else if suf = ''P'' then Some (10 ^ 15, DecimalSI)
      else if suf = ''E'' then Some (10 ^ 18, DecimalSI)
      else if suf = ''Ki'' then Some (2 ^ 10, BinarySI)
      else if suf = ''Mi'' then Some (2 ^ 20, BinarySI)
      else if suf = ''Gi'' then Some (2 ^ 30, BinarySI)
      else if suf = ''Ti'' then Some (2 ^ 40, BinarySI)
      else if suf = ''Pi'' then Some (2 ^ 50, BinarySI)
      else if suf = ''Ei'' then Some (2 ^ 60, BinarySI)
      else None)"

definition ParseQuantity :: "string \<Rightarrow> error + Quantity" where
  "ParseQuantity s =
     (let num = takeWhile is_digit s; suf = dropWhile is_digit s
      in if num = [] then Inl ''quantities must match the regular expression''
         else case suffix_scale suf of
                None \<Rightarrow> Inl ''unable to parse quantity's suffix''
              | Some (scale, fmt) \<Rightarrow>
                  Inr \<lparr>Amount = of_nat (digits_value num) * scale, Format = fmt\<rparr>)"

section \<open>Pod lifecycle waiter\<close>

text \<open>\<open>api.PodPhase\<close> is a string type with five named constants.\<close>

type_synonym PodPhase = string

definition PodPending :: PodPhase where "PodPending = ''Pending''"

definition PodRunning :: PodPhase where "PodRunning = ''Running''"

definition PodSucceeded :: PodPhase where "PodSucceeded = ''Succeeded''"

definition PodFailed :: PodPhase where "PodFailed = ''Failed''"

definition PodUnknown :: PodPhase where "PodUnknown = ''Unknown''"

text \<open>The fields of \<open>api.Pod\<close> that the waiter reads (\<open>Phase\<close> is \<open>pod.Status.Phase\<close>).\<close>

record Pod =
  Namespace :: string
  Name :: string
  Phase :: PodPhase

text \<open>The local struct \<open>resp\<close>; \<open>err\<close> is \<open>None\<close> for \<open>nil\<close>.\<close>

record resp =
  done' :: bool
  phase :: PodPhase
  err :: "error option"

text \<open>
  What the waiter does to the world, in order: it starts a goroutine whose first
  statement is \<open>c.Pods(pod.Namespace).Get(pod.Name)\<close>, and a goroutine that found a
  non-terminal phase writes one line to \<open>out\<close> and sleeps one second before it sends.
\<close>

datatype effect =
    FetchStarted string string
  | Write string
  | Sleep nat

text \<open>
  The body of the goroutine after \<open>Get\<close> has returned: the effects it performs and the
  \<open>resp\<close> it sends on \<open>errc\<close>. Inside the goroutine \<open>pod\<close> is the fetched pod (the
  declaration \<open>pod, err := ...\<close> shadows the argument).
\<close>

definition fetched :: "error + Pod \<Rightarrow> effect list \<times> resp" where
  "fetched r =
     (case r of
        Inl e \<Rightarrow> ([], \<lparr>done' = True, phase = PodUnknown, err = Some e\<rparr>)
      | Inr pod \<Rightarrow>
          (if Phase pod = PodRunning then
             ([], \<lparr>done' = True, phase = Phase pod, err = None\<rparr>)
           else if Phase pod = PodSucceeded then
             ([], \<lparr>done' = True, phase = Phase pod,
                   err = Some ''pod already succeeded before it begins running''\<rparr>)
           else if Phase pod = PodFailed then
             ([], \<lparr>done' = True, phase = Phase pod, err = Some ''pod status is failed''\<rparr>)
           else
             ([Write (''Waiting for pod '' @ Namespace pod @ ''/'' @ Name pod
                      @ '' to be running, status is '' @ Phase pod @ [CHR 0x0A]),
               Sleep 1],
              \<lparr>done' = False, phase = Phase pod, err = None\<rparr>)))"

text \<open>
  One \<open>select\<close> has two cases and takes exactly one of them: it receives the \<open>resp\<close> of
  the fetch it started (\<open>Recv r\<close>, where \<open>r\<close> is what \<open>Get\<close> returned), or it receives
  from \<open>ctx.Done()\<close> (\<open>CtxDone\<close>). Which one happens is decided by the cluster and the
  caller, so the sequence of these outcomes is the input of the model. A signal that is
  cancelled before the call makes \<open>ctx.Done()\<close> ready when the first \<open>select\<close> is
  entered, while the fetch has only just been started: the first outcome is \<open>CtxDone\<close>.
\<close>

datatype select_outcome = Recv "error + Pod" | CtxDone

text \<open>
  \<open>waitForPodRunning\<close>. Go evaluates the channel operand of every \<open>case\<close> on entering
  the \<open>select\<close>; the operand of the first case is a call of a function literal that
  starts the fetch goroutine, so each iteration starts one fetch before either channel is
  looked at. The loop has no bound of its own: when the given outcomes are used up the
  waiter is still blocked in a \<open>select\<close> and the result is \<open>None\<close>.
  \<open>ctxErr\<close> is the value of \<open>ctx.Err()\<close> once the signal is cancelled.
\<close>

fun waitForPodRunning ::
  "error \<Rightarrow> Pod \<Rightarrow> select_outcome list \<Rightarrow> effect list
   \<Rightarrow> (PodPhase \<times> error option) option \<times> effect list" where
  "waitForPodRunning ctxErr pod [] tr =
     (None, tr @ [FetchStarted (Namespace pod) (Name pod)])"
| "waitForPodRunning ctxErr pod (CtxDone # rest) tr =
     (Some (PodUnknown, Some ctxErr), tr @ [FetchStarted (Namespace pod) (Name pod)])"
| "waitForPodRunning ctxErr pod (Recv g # rest) tr =
     (let (eff, r) = fetched g;
          tr' = tr @ FetchStarted (Namespace pod) (Name pod) # eff
      in if done' r then (Some (phase r, err r), tr')
         else waitForPodRunning ctxErr pod rest tr')"

definition fetches :: "effect list \<Rightarrow> nat" where
  "fetches tr = length (filter (\<lambda>e. case e of FetchStarted ns nm \<Rightarrow> True | _ \<Rightarrow> False) tr)"

definition non_terminal :: "Pod \<Rightarrow> bool" where
  "non_terminal p \<longleftrightarrow> Phase p \<noteq> PodRunning \<and> Phase p \<noteq> PodSucceeded \<and> Phase p \<noteq> PodFailed"

text \<open>The effects of one iteration that received the result \<open>g\<close> of its fetch.\<close>

definition iteration :: "Pod \<Rightarrow> error + Pod \<Rightarrow> effect list" where
  "iteration pod g = FetchStarted (Namespace pod) (Name pod) # fst (fetched g)"

section \<open>Coordinator API client: transport and trust state\<close>

text \<open>
  Instants of \<open>time.Time\<close> are integers (nanoseconds on the wall clock), so
  \<open>t.Before(u)\<close> is \<open>t < u\<close>. A certificate is the pair of byte strings the client
  reads from it, and a connection state is its list of verified chains.
\<close>

type_synonym time = int

record Certificate =
  Signature :: string
  Raw :: string

record ConnectionState =
  VerifiedChains :: "Certificate list list"

text \<open>
  \<open>tls.Config\<close> and \<open>http.Transport\<close> with the fields that \<open>createTransport\<close> sets
  to data (\<open>Proxy\<close> and \<open>Dial\<close> are fixed functions). A certificate pool is the list of
  certificates added to it; \<open>RootCAs\<close> is \<open>None\<close> for \<open>nil\<close>.
\<close>

record tls_Config =
  MinVersion :: nat
  InsecureSkipVerify :: bool
  RootCAs :: "Certificate list option"

record http_Transport =
  TLSHandshakeTimeout :: int
  TLSClientConfig :: tls_Config

definition VersionTLS10 :: nat where
  "VersionTLS10 = 0x0301"

definition Second :: int where
  "Second = 1000000000"

text \<open>
  \<open>n.Transport\<close> holds a pointer to a transport object. Objects live in a heap, a list
  indexed by address; \<open>&http.Transport{...}\<close> allocates at the next free address, so a
  newly built transport is an object that did not exist before, even when its fields
  equal those of an older one. \<open>None\<close> is the nil pointer.
\<close>

type_synonym addr = nat

type_synonym heap = "http_Transport list"

record client =
  Transport :: "addr option"
  url :: string
  caFile :: string
  caData :: string
  skipVerify :: bool
  updateTime :: time

definition deref :: "heap \<Rightarrow> addr option \<Rightarrow> http_Transport option" where
  "deref h p = (case p of None \<Rightarrow> None
                | Some a \<Rightarrow> if a < length h then Some (h ! a) else None)"

subsection \<open>Requests, responses and the world outside the client\<close>

text \<open>
  \<open>http.Header\<close> maps a canonical key to a list of values; \<open>Get\<close> returns the first
  value or the empty string, \<open>Set\<close> replaces the list by one value.
\<close>

type_synonym Header = "string \<rightharpoonup> string list"

definition Header_Get :: "Header \<Rightarrow> string \<Rightarrow> string" where
  "Header_Get h key = (case h key of Some (v # vs) \<Rightarrow> v | _ \<Rightarrow> [])"

definition Header_Set :: "Header \<Rightarrow> string \<Rightarrow> string \<Rightarrow> Header" where
  "Header_Set h key v = h(key \<mapsto> [v])"

record Request =
  Method :: string
  URL :: string
  req_Header :: Header
  req_Body :: "string option"

record Response =
  StatusCode :: int
  Status :: string
  res_Header :: Header
  res_Body :: string
  TLS :: "ConnectionState option"

text \<open>
  Everything the client asks of the operating system and of the Go libraries during one
  call is a field of the environment: the result of \<open>os.Stat\<close> on a path (an error or
  the modification time), the clock, \<open>ioutil.ReadFile\<close>, the certificates that
  \<open>AppendCertsFromPEM\<close> finds in a PEM text, \<open>n.url.Parse\<close> (base URL, reference),
  \<open>http.NewRequest\<close>, the round trip of \<open>n.Do\<close> through a transport, the user agent
  string, \<open>json.Marshal\<close>, the JSON decoder (it returns the target as it has left it and
  an error or none) and \<open>pem.Encode\<close> of a block (type, bytes) into a buffer.
  Log output of \<open>logrus\<close> is not part of the model.
\<close>

record ('req, 'resp) env =
  os_Stat :: "string \<Rightarrow> error + time"
  time_Now :: time
  ioutil_ReadFile :: "string \<Rightarrow> error + string"
  AppendCertsFromPEM :: "string \<Rightarrow> Certificate list"
  url_Parse :: "string \<Rightarrow> string \<Rightarrow> error + string"
  http_NewRequest :: "string \<Rightarrow> string \<Rightarrow> string option \<Rightarrow> error + Request"
  http_Do :: "http_Transport option \<Rightarrow> Request \<Rightarrow> error + Response"
  UserAgent :: string
  json_Marshal :: "'req \<Rightarrow> error + string"
  json_Decode :: "string \<Rightarrow> 'resp \<Rightarrow> 'resp \<times> error option"
  pem_Encode :: "string \<Rightarrow> string \<Rightarrow> string"

subsection \<open>createTransport and ensureTLSConfig\<close>

text \<open>
  \<open>createTransport\<close>: the TLS configuration starts without root CAs; when a CA file is
  set and verification is not skipped the file is read, and if at least one certificate
  parses from it the pool becomes the root CAs and the bytes are cached in \<open>caData\<close>.
  Every other outcome only logs. A new transport object is then allocated and stored.
\<close>

definition createTransport ::
  "('req, 'resp) env \<Rightarrow> heap \<Rightarrow> client \<Rightarrow> heap \<times> client" where
  "createTransport e h n =
     (let tlsConfig = \<lparr>MinVersion = VersionTLS10, InsecureSkipVerify = skipVerify n,
                       RootCAs = None\<rparr>;
          (tlsConfig, n) =
            (if caFile n \<noteq> [] \<and> \<not> skipVerify n then
               (case ioutil_ReadFile e (caFile n) of
                  Inr data \<Rightarrow>
                    (let pool = AppendCertsFromPEM e data
                     in if pool \<noteq> []
                        then (tlsConfig\<lparr>RootCAs := Some pool\<rparr>, n\<lparr>caData := data\<rparr>)
                        else (tlsConfig, n))
                | Inl failure \<Rightarrow> (tlsConfig, n))
             else (tlsConfig, n))
      in (h @ [\<lparr>TLSHandshakeTimeout = 10 * Second, TLSClientConfig = tlsConfig\<rparr>],
          n\<lparr>Transport := Some (length h)\<rparr>))"

text \<open>
  \<^verbatim>\<open>
  func (n *client) ensureTLSConfig() {
      if stat, err := os.Stat(n.caFile); err == nil && n.updateTime.Before(stat.ModTime()) {
          n.Transport = nil
      }
      if n.Transport == nil {
          n.updateTime = time.Now()
          n.createTransport()
      }
  }
  \<close>
\<close>

definition ensureTLSConfig ::
  "('req, 'resp) env \<Rightarrow> heap \<Rightarrow> client \<Rightarrow> heap \<times> client" where
  "ensureTLSConfig e h n =
     (let n = (case os_Stat e (caFile n) of
                 Inr modTime \<Rightarrow> if updateTime n < modTime then n\<lparr>Transport := None\<rparr> else n
               | Inl failure \<Rightarrow> n)
      in if Transport n = None
         then createTransport e h (n\<lparr>updateTime := time_Now e\<rparr>)
         else (h, n))"

subsection \<open>getCAChain\<close>

text \<open>
  \<open>hex.EncodeToString\<close>: two digits of the table per byte, high half first.
\<close>

definition hextable :: string where
  "hextable = ''0123456789abcdef''"

definition EncodeToString :: "string \<Rightarrow> string" where
  "EncodeToString src =
     concat (map (\<lambda>v. [hextable ! ((of_char v :: nat) div 16),
                        hextable ! ((of_char v :: nat) mod 16)]) src)"

text \<open>
  \<open>seenCertificates\<close> is a Go map from strings to booleans: reading a missing key
  yields \<open>false\<close>.
\<close>

definition seen_lookup :: "(string \<rightharpoonup> bool) \<Rightarrow> string \<Rightarrow> bool" where
  "seen_lookup m key = (case m key of Some b \<Rightarrow> b | None \<Rightarrow> False)"

text \<open>
  The inner loop over one verified chain and the outer loop over all chains; the state is
  the slice \<open>certificates\<close> and the map \<open>seenCertificates\<close>.
\<close>

fun chain_loop ::
  "Certificate list \<Rightarrow> Certificate list \<times> (string \<rightharpoonup> bool)
   \<Rightarrow> Certificate list \<times> (string \<rightharpoonup> bool)" where
  "chain_loop [] (certificates, seenCertificates) = (certificates, seenCertificates)"
| "chain_loop (certificate # rest) (certificates, seenCertificates) =
     (let signature = EncodeToString (Signature certificate)
      in if seen_lookup seenCertificates signature
         then chain_loop rest (certificates, seenCertificates)
         else chain_loop rest (certificates @ [certificate],
                               seenCertificates(signature \<mapsto> True)))"

fun chains_loop ::
  "Certificate list list \<Rightarrow> Certificate list \<times> (string \<rightharpoonup> bool)
   \<Rightarrow> Certificate list \<times> (string \<rightharpoonup> bool)" where
  "chains_loop [] st = st"
| "chains_loop (verifiedChain # rest) st = chains_loop rest (chain_loop verifiedChain st)"

text \<open>
  The certificates that \<open>getCAChain\<close> collects from a connection state, and the text it
  returns. \<open>pem.Encode\<close> writes into a memory buffer a block without headers, which
  cannot fail, so each certificate contributes its encoded block.
\<close>

definition collect :: "ConnectionState \<Rightarrow> Certificate list" where
  "collect st = fst (chains_loop (VerifiedChains st) ([], Map.empty))"

definition getCAChain ::
  "('req, 'resp) env \<Rightarrow> client \<Rightarrow> ConnectionState option \<Rightarrow> string" where
  "getCAChain e n tls =
     (if length (caData n) \<noteq> 0 then caData n
      else case tls of
             None \<Rightarrow> []
           | Some st \<Rightarrow>
               concat (map (\<lambda>certificate. pem_Encode e ''CERTIFICATE'' (Raw certificate))
                           (collect st)))"

subsection \<open>do and doJSON\<close>

text \<open>
  \<open>do\<close>: resolve the reference against the base URL, build the request, install the
  headers, set content type and user agent only when there is a body, bring the transport
  up to date, send. The result is the new heap and client with an error or the response.
\<close>

definition do ::
  "('req, 'resp) env \<Rightarrow> heap \<Rightarrow> client \<Rightarrow> string \<Rightarrow> string \<Rightarrow> string option \<Rightarrow> string
   \<Rightarrow> Header option \<Rightarrow> (heap \<times> client) \<times> (error + Response)" where
  "do e h n uri method request requestType headers =
     (case url_Parse e (url n) uri of
        Inl failure \<Rightarrow> ((h, n), Inl failure)
      | Inr u \<Rightarrow>
          (case http_NewRequest e method u request of
             Inl failure \<Rightarrow> ((h, n), Inl (''failed to create NewRequest: '' @ failure))
           | Inr req \<Rightarrow>
               (let req = (case headers of Some hs \<Rightarrow> req\<lparr>req_Header := hs\<rparr> | None \<Rightarrow> req);
                    req = (if request \<noteq> None
                           then req\<lparr>req_Header :=
                                  Header_Set (Header_Set (req_Header req) ''Content-Type'' requestType)
                                    ''User-Agent'' (UserAgent e)\<rparr>
                           else req);
                    (h, n) = ensureTLSConfig e h n
                in case http_Do e (deref h (Transport n)) req of
                     Inl failure \<Rightarrow>
                       ((h, n), Inl (''couldn't execute '' @ Method req @ '' against ''
                                     @ URL req @ '': '' @ failure))
                   | Inr res \<Rightarrow> ((h, n), Inr res))))"

text \<open>
  \<open>doJSON\<close> returns the triple (status code, status text, trust chain); the model also
  returns the heap and client after the call and the response target as the call leaves
  it. \<open>request\<close> and \<open>response\<close> are \<open>None\<close> for \<open>nil\<close>.
\<close>

definition doJSON ::
  "('req, 'resp) env \<Rightarrow> heap \<Rightarrow> client \<Rightarrow> string \<Rightarrow> string \<Rightarrow> int \<Rightarrow> 'req option
   \<Rightarrow> 'resp option \<Rightarrow> (int \<times> string \<times> string) \<times> (heap \<times> client) \<times> 'resp option" where
  "doJSON e h n uri method statusCode request response =
     (case (case request of
              None \<Rightarrow> Inr None
            | Some rq \<Rightarrow> (case json_Marshal e rq of
                            Inl failure \<Rightarrow> Inl failure
                          | Inr requestBody \<Rightarrow> Inr (Some requestBody))) of
        Inl failure \<Rightarrow>
          ((- 1, ''failed to marshal project object: '' @ failure, []), (h, n), response)
      | Inr body \<Rightarrow>
          (let headers = (if response \<noteq> None
                          then Header_Set Map.empty ''Accept'' ''application/json''
                          else Map.empty)
           in case do e h n uri method body ''application/json'' (Some headers) of
                (hn, Inl failure) \<Rightarrow> ((- 1, failure, []), hn, response)
              | (hn, Inr res) \<Rightarrow>
                  (if StatusCode res = statusCode then
                     (case response of
                        Some target \<Rightarrow>
                          (let contentType = Header_Get (res_Header res) ''Content-Type''
                           in if contentType \<noteq> ''application/json'' then
                                ((- 1, ''Server should return application/json. Got: ''
                                       @ contentType, []), hn, response)
                              else
                                (case json_Decode e (res_Body res) target of
                                   (target', Some failure) \<Rightarrow>
                                     ((- 1, ''Error decoding json payload '' @ failure, []),
                                      hn, Some target')
                                 | (target', None) \<Rightarrow>
                                     ((StatusCode res, Status res, getCAChain e (snd hn) (TLS res)),
                                      hn, Some target')))
                      | None \<Rightarrow>
                          ((StatusCode res, Status res, getCAChain e (snd hn) (TLS res)),
                           hn, response))
                   else
                     ((StatusCode res, Status res, getCAChain e (snd hn) (TLS res)),
                      hn, response))))"

subsection \<open>A concrete coordinator for evaluating the client\<close>

text \<open>
  Three certificates, the second and third with the same signature, and a connection
  state with two verified chains that share their leaf.
\<close>

definition leaf_cert :: Certificate where
  "leaf_cert = \<lparr>Signature = [CHR 0x01, CHR 0xAB], Raw = ''leaf''\<rparr>"

definition ca_cert :: Certificate where
  "ca_cert = \<lparr>Signature = [CHR 0x02, CHR 0xCD], Raw = ''ca''\<rparr>"

definition cross_cert :: Certificate where
  "cross_cert = \<lparr>Signature = [CHR 0x02, CHR 0xCD], Raw = ''cross''\<rparr>"

definition root_cert :: Certificate where
  "root_cert = \<lparr>Signature = [CHR 0x03, CHR 0xEF], Raw = ''root''\<rparr>"

definition example_tls :: ConnectionState where
  "example_tls = \<lparr>VerifiedChains = [[leaf_cert, ca_cert], [leaf_cert, cross_cert, root_cert]]\<rparr>"

text \<open>
  A coordinator that answers \<open>register\<close> with 201 and JSON, \<open>page\<close> with 201 and HTML,
  \<open>broken\<close> with 201 and a JSON body that does not decode, \<open>missing\<close> with 404 and
  HTML, and is unreachable for every other path. Requests and response targets are
  strings; marshalling fails on the empty request, decoding replaces the target by the
  body.
\<close>

definition example_env :: "(string, string) env" where
  "example_env =
     \<lparr>os_Stat = (\<lambda>path. if path = ''ca.crt'' then Inr 200
                          else Inl ''stat: no such file or directory''),
      time_Now = 300,
      ioutil_ReadFile = (\<lambda>path. if path = ''ca.crt'' then Inr ''PEM''
                                  else Inl ''open: no such file or directory''),
      AppendCertsFromPEM = (\<lambda>data. if data = ''PEM'' then [root_cert] else []),
      url_Parse = (\<lambda>base ref. if ref = ''%zz'' then Inl ''invalid URL escape''
                                 else Inr (base @ ref)),
      http_NewRequest = (\<lambda>method u body.
         Inr \<lparr>Method = method, URL = u, req_Header = Map.empty, req_Body = body\<rparr>),
      http_Do = (\<lambda>transport req.
         if URL req = ''https://example.com/ci/api/v1/register'' then
           Inr \<lparr>StatusCode = 201, Status = ''201 Created'',
                res_Header = [''Content-Type'' \<mapsto> [''application/json'']],
                res_Body = ''{}'', TLS = Some example_tls\<rparr>
         else if URL req = ''https://example.com/ci/api/v1/page'' then
           Inr \<lparr>StatusCode = 201, Status = ''201 Created'',
                res_Header = [''Content-Type'' \<mapsto> [''text/html'']],
                res_Body = ''<html>'', TLS = Some example_tls\<rparr>
         else if URL req = ''https://example.com/ci/api/v1/broken'' then
           Inr \<lparr>StatusCode = 201, Status = ''201 Created'',
                res_Header = [''Content-Type'' \<mapsto> [''application/json'']],
                res_Body = ''{'', TLS = Some example_tls\<rparr>
         else if URL req = ''https://example.com/ci/api/v1/missing'' then
           Inr \<lparr>StatusCode = 404, Status = ''404 Not Found'',
                res_Header = [''Content-Type'' \<mapsto> [''text/html'']],
                res_Body = ''<html>'', TLS = Some example_tls\<rparr>
         else Inl ''dial tcp: connection refused''),
      UserAgent = ''gitlab-ci-multi-runner'',
      json_Marshal = (\<lambda>rq. if rq = [] then Inl ''unsupported value'' else Inr rq),
      json_Decode = (\<lambda>body target. if body = ''{'' then (target, Some ''unexpected EOF'')
                                     else (body, None)),
      pem_Encode = (\<lambda>ty bytes. ''[BEGIN '' @ ty @ '']'' @ bytes @ ''[END]'')\<rparr>"

definition example_client :: client where
  "example_client =
     \<lparr>Transport = None, url = ''https://example.com/ci/api/v1/'', caFile = ''ca.crt'',
      caData = [], skipVerify = True, updateTime = 0\<rparr>"

definition example_transport :: http_Transport where
  "example_transport =
     \<lparr>TLSHandshakeTimeout = 10 * Second,
      TLSClientConfig = \<lparr>MinVersion = VersionTLS10, InsecureSkipVerify = True, RootCAs = None\<rparr>\<rparr>"

subsection \<open>Notions used to state the properties of the client\<close>

text \<open>
  The CA file is stale when it can be stat'ed and its modification time is strictly
  after the recorded \<open>updateTime\<close>.
\<close>

definition stale :: "('req, 'resp) env \<Rightarrow> client \<Rightarrow> bool" where
  "stale e n = (case os_Stat e (caFile n) of
                  Inr modTime \<Rightarrow> updateTime n < modTime
                | Inl failure \<Rightarrow> False)"

text \<open>
  A step from heap \<open>h\<close> has rebuilt the transport when the heap has exactly one object
  more, the old objects are as they were, and the client points to the new object.
\<close>

definition rebuilt :: "heap \<Rightarrow> heap \<times> client \<Rightarrow> bool" where
  "rebuilt h r \<longleftrightarrow>
     length (fst r) = Suc (length h) \<and> take (length h) (fst r) = h
     \<and> Transport (snd r) = Some (length h)"

text \<open>
  Deduplication by signature as the spec words it: walking the certificates in discovery
  order, a certificate is kept when no earlier one has its signature.
\<close>

fun first_seen :: "Certificate list \<Rightarrow> Certificate list" where
  "first_seen [] = []"
| "first_seen (c # cs) = c # first_seen (filter (\<lambda>d. Signature d \<noteq> Signature c) cs)"

text \<open>
  The loop invariant of \<open>getCAChain\<close>: the keys marked in \<open>seenCertificates\<close> are the
  hex-encoded signatures of the certificates collected so far.
\<close>

definition seen_inv :: "Certificate list \<Rightarrow> (string \<rightharpoonup> bool) \<Rightarrow> bool" where
  "seen_inv got seen \<longleftrightarrow>
     (\<forall>c::Certificate. seen_lookup seen (EncodeToString (Signature c))
                        \<longleftrightarrow> Signature c \<in> Signature ` set got)"

text \<open>
  What \<open>doJSON\<close> gets back from \<open>do\<close>: \<open>Inl\<close> when marshalling the request object
  failed and nothing was sent, otherwise the result of the call of \<open>do\<close> with the
  marshalled body and the \<open>Accept\<close> header.
\<close>

definition sent ::
  "('req, 'resp) env \<Rightarrow> heap \<Rightarrow> client \<Rightarrow> string \<Rightarrow> string \<Rightarrow> 'req option \<Rightarrow> 'resp option
   \<Rightarrow> error + ((heap \<times> client) \<times> (error + Response))" where
  "sent e h n uri method request response =
     (case (case request of
              None \<Rightarrow> Inr None
            | Some rq \<Rightarrow> (case json_Marshal e rq of
                            Inl failure \<Rightarrow> Inl failure
                          | Inr requestBody \<Rightarrow> Inr (Some requestBody))) of
        Inl failure \<Rightarrow> Inl failure
      | Inr body \<Rightarrow>
          Inr (do e h n uri method body ''application/json''
                 (Some (if response \<noteq> None
                        then Header_Set Map.empty ''Accept'' ''application/json''
                        else Map.empty))))"

text \<open>
  A received response is rejected when it has the expected status, a response target was
  supplied, and its content type is not exactly \<open>application/json\<close> or its body does
  not decode.
\<close>

definition rejected :: "('req, 'resp) env \<Rightarrow> int \<Rightarrow> 'resp option \<Rightarrow> Response \<Rightarrow> bool" where
  "rejected e statusCode response res \<longleftrightarrow>
     StatusCode res = statusCode
     \<and> (case response of
          None \<Rightarrow> False
        | Some target \<Rightarrow>
            Header_Get (res_Header res) ''Content-Type'' \<noteq> ''application/json''
            \<or> snd (json_Decode e (res_Body res) target) \<noteq> None)"


section \<open>Properties of URL normalisation\<close>

lemma HasSuffix_append: "HasSuffix (s @ suf) suf"
  by (simp add: HasSuffix_def)

lemma TrimRight_slash_fixed:
  assumes "s = [] \<or> last s \<noteq> CHR ''/''"
  shows "TrimRight s ''/'' = s"
proof (cases s rule: rev_cases)
  case Nil
  then show ?thesis by (simp add: TrimRight_def)
next
  case (snoc ys y)
  with assms have "y \<noteq> CHR ''/''" by simp
  with snoc show ?thesis by (simp add: TrimRight_def)
qed

lemma dropWhile_replicate: "P c \<Longrightarrow> dropWhile P (replicate k c @ xs) = dropWhile P xs"
  by (induction k) simp_all

lemma TrimRight_slashes: "TrimRight (s @ replicate k CHR ''/'') ''/'' = TrimRight s ''/''"
  by (simp add: TrimRight_def dropWhile_replicate)

lemma HasSuffix_ci_last:
  assumes "HasSuffix s ''/ci''"
  shows "s \<noteq> [] \<and> last s = CHR ''i''"
proof -
  define n where "n = length s - length ''/ci''"
  from assms have len: "length ''/ci'' \<le> length s" and d: "drop n s = ''/ci''"
    by (simp_all add: HasSuffix_def n_def)
  from len have ne: "s \<noteq> []" by auto
  have "s = take n s @ ''/ci''"
    using d append_take_drop_id [of n s] by simp
  then have "last s = last (take n s @ ''/ci'')" by simp
  also have "\<dots> = CHR ''i''" by simp
  finally show ?thesis using ne by simp
qed

lemma fixCIURL_HasSuffix: "HasSuffix (fixCIURL u) ''/ci''"
  using HasSuffix_append [of "TrimRight u ''/''" "''/ci''"]
  by (simp add: fixCIURL_def Let_def)

text \<open>
  Claim C4. \<open>fixCIURL\<close> is idempotent on every input string; the result always ends in
  the suffix \<open>/ci\<close>; any number of trailing slashes on the input makes no difference
  to the result (they are stripped before the suffix test, so the suffix is added at
  most once by a call and never again by a second call); and
  \<open>https://example.com/\<close> is normalised to \<open>https://example.com/ci\<close>, which is a
  fixed point.
\<close>

theorem fixCIURL_idempotent:
  "fixCIURL (fixCIURL u) = fixCIURL u
   \<and> HasSuffix (fixCIURL u) ''/ci''
   \<and> fixCIURL (u @ replicate k CHR ''/'') = fixCIURL u
   \<and> fixCIURL u = (if HasSuffix (TrimRight u ''/'') ''/ci''
                      then TrimRight u ''/'' else TrimRight u ''/'' @ ''/ci'')
   \<and> fixCIURL ''https://example.com/'' = ''https://example.com/ci''
   \<and> fixCIURL ''https://example.com/ci'' = ''https://example.com/ci''"
proof -
  have suf: "HasSuffix (fixCIURL u) ''/ci''" by (rule fixCIURL_HasSuffix)
  from HasSuffix_ci_last [OF suf]
  have "TrimRight (fixCIURL u) ''/'' = fixCIURL u"
    by (intro TrimRight_slash_fixed) simp
  with suf have idem: "fixCIURL (fixCIURL u) = fixCIURL u"
    by (simp add: fixCIURL_def [of "fixCIURL u"] Let_def)
  have slashes: "fixCIURL (u @ replicate k CHR ''/'') = fixCIURL u"
    by (simp add: fixCIURL_def TrimRight_slashes)
  have shape: "fixCIURL u = (if HasSuffix (TrimRight u ''/'') ''/ci''
                      then TrimRight u ''/'' else TrimRight u ''/'' @ ''/ci'')"
    by (simp add: fixCIURL_def Let_def)
  have ex1: "fixCIURL ''https://example.com/'' = ''https://example.com/ci''"
    by (simp add: fixCIURL_def TrimRight_def HasSuffix_def)
  have ex2: "fixCIURL ''https://example.com/ci'' = ''https://example.com/ci''"
    by (simp add: fixCIURL_def TrimRight_def HasSuffix_def)
  from idem suf slashes shape ex1 ex2 show ?thesis by blast
qed

section \<open>Properties of the cluster connection resolver\<close>

text \<open>
  Claim C8. \<open>getKubeClientConfig\<close> takes exactly one of three strategies, in a fixed
  order. With a certificate file configured and the key file or the CA file absent, it
  fails, and the error text names the key file and the CA file (it is one fixed message
  that lists all three file fields); with all three present it returns host and the three
  paths; with no certificate file but a host it returns a config holding only the host;
  with neither it returns whatever in-cluster discovery returned, error or config.
\<close>

theorem getKubeClientConfig_strategies:
  "(CertFile config \<noteq> [] \<and> (KeyFile config = [] \<or> CAFile config = []) \<longrightarrow>
      (\<exists>msg. getKubeClientConfig InClusterConfig config = Inl msg
             \<and> sublist ''key file'' msg \<and> sublist ''ca file'' msg)
      \<and> getKubeClientConfig InClusterConfig config =
          Inl ''ca file, cert file and key file must be specified when using file based auth'')
   \<and> (CertFile config \<noteq> [] \<and> KeyFile config \<noteq> [] \<and> CAFile config \<noteq> [] \<longrightarrow>
      getKubeClientConfig InClusterConfig config =
        Inr \<lparr>rc_Host = Host config,
             rc_TLSClientConfig = \<lparr>tls_CertFile = CertFile config,
                                    tls_KeyFile = KeyFile config,
                                    tls_CAFile = CAFile config\<rparr>\<rparr>)
   \<and> (CertFile config = [] \<and> Host config \<noteq> [] \<longrightarrow>
      getKubeClientConfig InClusterConfig config =
        Inr \<lparr>rc_Host = Host config,
             rc_TLSClientConfig = \<lparr>tls_CertFile = [], tls_KeyFile = [], tls_CAFile = []\<rparr>\<rparr>)
   \<and> (CertFile config = [] \<and> Host config = [] \<longrightarrow>
      getKubeClientConfig InClusterConfig config = InClusterConfig)"
proof -
  have key: "sublist ''key file''
      ''ca file, cert file and key file must be specified when using file based auth''"
    by code_simp
  have ca: "sublist ''ca file''
      ''ca file, cert file and key file must be specified when using file based auth''"
    by code_simp
  show ?thesis
    using key ca by (simp add: getKubeClientConfig_def zero_TLSClientConfig_def)
qed

theorem getKubeClientConfig_strategies_witness:
  "getKubeClientConfig (Inl ''unable to load in-cluster configuration'')
      \<lparr>Host = ''https://k8s:6443'', CertFile = ''cert.pem'', KeyFile = [], CAFile = []\<rparr>
     = Inl ''ca file, cert file and key file must be specified when using file based auth''
   \<and> getKubeClientConfig (Inl ''unable to load in-cluster configuration'')
      \<lparr>Host = ''https://k8s:6443'', CertFile = ''cert.pem'', KeyFile = ''key.pem'',
       CAFile = ''ca.pem''\<rparr>
     = Inr \<lparr>rc_Host = ''https://k8s:6443'',
            rc_TLSClientConfig = \<lparr>tls_CertFile = ''cert.pem'', tls_KeyFile = ''key.pem'',
                                   tls_CAFile = ''ca.pem''\<rparr>\<rparr>
   \<and> getKubeClientConfig (Inl ''unable to load in-cluster configuration'')
      \<lparr>Host = ''https://k8s:6443'', CertFile = [], KeyFile = ''key.pem'', CAFile = ''ca.pem''\<rparr>
     = Inr \<lparr>rc_Host = ''https://k8s:6443'',
            rc_TLSClientConfig = \<lparr>tls_CertFile = [], tls_KeyFile = [], tls_CAFile = []\<rparr>\<rparr>
   \<and> getKubeClientConfig (Inl ''unable to load in-cluster configuration'')
      \<lparr>Host = [], CertFile = [], KeyFile = [], CAFile = []\<rparr>
     = Inl ''unable to load in-cluster configuration''"
  using
    getKubeClientConfig_strategies [of
      "\<lparr>Host = ''https://k8s:6443'', CertFile = ''cert.pem'', KeyFile = [], CAFile = []\<rparr>"
      "Inl ''unable to load in-cluster configuration''"]
    getKubeClientConfig_strategies [of
      "\<lparr>Host = ''https://k8s:6443'', CertFile = ''cert.pem'', KeyFile = ''key.pem'',
        CAFile = ''ca.pem''\<rparr>"
      "Inl ''unable to load in-cluster configuration''"]
    getKubeClientConfig_strategies [of
      "\<lparr>Host = ''https://k8s:6443'', CertFile = [], KeyFile = ''key.pem'', CAFile = ''ca.pem''\<rparr>"
      "Inl ''unable to load in-cluster configuration''"]
    getKubeClientConfig_strategies [of
      "\<lparr>Host = [], CertFile = [], KeyFile = [], CAFile = []\<rparr>"
      "Inl ''unable to load in-cluster configuration''"]
  by simp

section \<open>Properties of the resource spec builder\<close>

lemma parse_error:
  "s \<noteq> [] \<Longrightarrow> PQ s = Inl e \<Longrightarrow> parse PQ s = Inl (''error parsing resource limit: '' @ e)"
  by (simp add: parse_def)

lemma ParseQuantity_500m: "ParseQuantity ''500m'' = Inr \<lparr>Amount = 1 / 2, Format = DecimalSI\<rparr>"
  by (simp add: ParseQuantity_def is_digit_def digits_value_def suffix_scale_def)

lemma ParseQuantity_50Mi:
  "ParseQuantity ''50Mi'' = Inr \<lparr>Amount = 50 * 1024 * 1024, Format = BinarySI\<rparr>"
  by (simp add: ParseQuantity_def is_digit_def digits_value_def suffix_scale_def)

lemma ParseQuantity_abc:
  "ParseQuantity ''abc'' = Inl ''quantities must match the regular expression''"
  by (simp add: ParseQuantity_def is_digit_def)

lemma ResourceLimits_distinct: "ResourceLimitsCPU \<noteq> ResourceLimitsMemory"
  by (simp add: ResourceLimitsCPU_def ResourceLimitsMemory_def)

text \<open>
  Claim C1. The claim asks for a non-nil error whenever a non-empty cpu or memory string
  does not parse. The closure \<open>parse\<close> does build that error, but \<open>limits\<close> drops it:
  in both failure branches it returns the empty resource list together with a nil error.
\<close>

theorem limits_drops_parse_error:
  assumes "(cpu \<noteq> [] \<and> PQ cpu = Inl e) \<or> (memory \<noteq> [] \<and> PQ memory = Inl e)"
  shows "limits PQ cpu memory = (Map.empty, None)"
  using assms
  by (auto simp: limits_def parse_def split: sum.splits)

theorem limits_drops_parse_error_witness:
  "parse ParseQuantity ''abc''
     = Inl ''error parsing resource limit: quantities must match the regular expression''
   \<and> limits ParseQuantity ''abc'' [] = (Map.empty, None)
   \<and> limits ParseQuantity ''500m'' ''abc'' = (Map.empty, None)"
  using
    limits_drops_parse_error [of "''abc''" ParseQuantity
      "''quantities must match the regular expression''" "[]"]
    limits_drops_parse_error [of "''500m''" ParseQuantity
      "''quantities must match the regular expression''" "''abc''"]
    parse_error [of "''abc''" ParseQuantity "''quantities must match the regular expression''"]
    ParseQuantity_abc
  by simp

text \<open>
  Claim C9. When each argument is either empty or accepted by the quantity parser,
  \<open>limits\<close> returns no error and a resource list that holds, under the CPU key and the
  memory key, exactly the quantities the parser produced for the non-empty arguments, and
  no other key. With the suffix notation read by \<open>ParseQuantity\<close>,
  \<open>limits "500m" "50Mi"\<close> holds one half (of a core) under the CPU key and
  \<open>50 * 1024 * 1024\<close> (bytes) under the memory key.
\<close>

theorem limits_well_formed:
  assumes "cpu = [] \<or> PQ cpu = Inr qc" and "memory = [] \<or> PQ memory = Inr qm"
  shows "snd (limits PQ cpu memory) = None
    \<and> fst (limits PQ cpu memory) ResourceLimitsCPU = (if cpu = [] then None else Some qc)
    \<and> fst (limits PQ cpu memory) ResourceLimitsMemory = (if memory = [] then None else Some qm)
    \<and> dom (fst (limits PQ cpu memory))
        = (if cpu = [] then {} else {ResourceLimitsCPU})
          \<union> (if memory = [] then {} else {ResourceLimitsMemory})
    \<and> fst (limits ParseQuantity ''500m'' ''50Mi'')
        = [ResourceLimitsCPU \<mapsto> \<lparr>Amount = 1 / 2, Format = DecimalSI\<rparr>,
           ResourceLimitsMemory \<mapsto> \<lparr>Amount = 50 * 1024 * 1024, Format = BinarySI\<rparr>]"
proof -
  have pc: "parse PQ cpu = Inr (if cpu = [] then None else Some qc)"
    using assms(1) by (auto simp: parse_def)
  have pm: "parse PQ memory = Inr (if memory = [] then None else Some qm)"
    using assms(2) by (auto simp: parse_def)
  have general: "snd (limits PQ cpu memory) = None
    \<and> fst (limits PQ cpu memory) ResourceLimitsCPU = (if cpu = [] then None else Some qc)
    \<and> fst (limits PQ cpu memory) ResourceLimitsMemory = (if memory = [] then None else Some qm)
    \<and> dom (fst (limits PQ cpu memory))
        = (if cpu = [] then {} else {ResourceLimitsCPU})
          \<union> (if memory = [] then {} else {ResourceLimitsMemory})"
    using ResourceLimits_distinct by (auto simp: limits_def pc pm)
  have "parse ParseQuantity ''500m'' = Inr (Some \<lparr>Amount = 1 / 2, Format = DecimalSI\<rparr>)"
    by (simp add: parse_def ParseQuantity_500m)
  moreover have "parse ParseQuantity ''50Mi''
      = Inr (Some \<lparr>Amount = 50 * 1024 * 1024, Format = BinarySI\<rparr>)"
    by (simp add: parse_def ParseQuantity_50Mi)
  ultimately have scenario: "fst (limits ParseQuantity ''500m'' ''50Mi'')
        = [ResourceLimitsCPU \<mapsto> \<lparr>Amount = 1 / 2, Format = DecimalSI\<rparr>,
           ResourceLimitsMemory \<mapsto> \<lparr>Amount = 50 * 1024 * 1024, Format = BinarySI\<rparr>]"
    by (simp add: limits_def)
  from general scenario show ?thesis by blast
qed

theorem limits_well_formed_witness:
  "snd (limits ParseQuantity ''500m'' ''50Mi'') = None
   \<and> fst (limits ParseQuantity ''500m'' ''50Mi'') ResourceLimitsCPU
       = Some \<lparr>Amount = 1 / 2, Format = DecimalSI\<rparr>
   \<and> fst (limits ParseQuantity ''500m'' ''50Mi'') ResourceLimitsMemory
       = Some \<lparr>Amount = 52428800, Format = BinarySI\<rparr>
   \<and> dom (fst (limits ParseQuantity ''500m'' ''50Mi'')) = {ResourceLimitsCPU, ResourceLimitsMemory}
   \<and> snd (limits ParseQuantity [] ''50Mi'') = None
   \<and> dom (fst (limits ParseQuantity [] ''50Mi'')) = {ResourceLimitsMemory}"
  using
    limits_well_formed [of "''500m''" ParseQuantity "\<lparr>Amount = 1 / 2, Format = DecimalSI\<rparr>"
      "''50Mi''" "\<lparr>Amount = 50 * 1024 * 1024, Format = BinarySI\<rparr>"]
    limits_well_formed [of "[]" ParseQuantity "\<lparr>Amount = 1 / 2, Format = DecimalSI\<rparr>"
      "''50Mi''" "\<lparr>Amount = 50 * 1024 * 1024, Format = BinarySI\<rparr>"]
    ParseQuantity_500m ParseQuantity_50Mi
  by auto

section \<open>Properties of the pod lifecycle waiter\<close>

lemma fetched_non_terminal:
  "non_terminal p \<Longrightarrow> done' (snd (fetched (Inr p))) = False"
  by (simp add: fetched_def non_terminal_def)

lemma fetches_append: "fetches (xs @ ys) = fetches xs + fetches ys"
  by (simp add: fetches_def)

lemma fetches_fetched: "fetches (fst (fetched g)) = 0"
  by (simp add: fetched_def fetches_def split: sum.splits)

lemma fetches_iteration: "fetches (iteration pod g) = 1"
  using fetches_fetched [of g] by (simp add: iteration_def fetches_def)

lemma fetches_iterations: "fetches (concat (map (iteration pod) gs)) = length gs"
  by (induction gs) (simp_all add: fetches_append fetches_iteration, simp add: fetches_def)

lemma waitForPodRunning_Recv:
  "waitForPodRunning ctxErr pod (Recv g # rest) tr =
     (if done' (snd (fetched g))
      then (Some (phase (snd (fetched g)), err (snd (fetched g))), tr @ iteration pod g)
      else waitForPodRunning ctxErr pod rest (tr @ iteration pod g))"
  by (simp add: iteration_def split: prod.splits)

lemma waitForPodRunning_pending:
  assumes "\<forall>p\<in>set ps. non_terminal p"
  shows "waitForPodRunning ctxErr pod (map (\<lambda>p. Recv (Inr p)) ps @ rest) tr =
         waitForPodRunning ctxErr pod rest (tr @ concat (map (\<lambda>p. iteration pod (Inr p)) ps))"
  using assms
proof (induction ps arbitrary: tr)
  case Nil
  show ?case by simp
next
  case (Cons p ps)
  from Cons.prems have nt: "non_terminal p" and rest: "\<forall>q\<in>set ps. non_terminal q"
    by simp_all
  have "waitForPodRunning ctxErr pod (map (\<lambda>p. Recv (Inr p)) (p # ps) @ rest) tr =
        waitForPodRunning ctxErr pod (map (\<lambda>p. Recv (Inr p)) ps @ rest)
          (tr @ iteration pod (Inr p))"
    using fetched_non_terminal [OF nt]
    by (simp only: list.map append_Cons waitForPodRunning_Recv if_False)
  also have "\<dots> = waitForPodRunning ctxErr pod rest
      ((tr @ iteration pod (Inr p)) @ concat (map (\<lambda>p. iteration pod (Inr p)) ps))"
    by (rule Cons.IH [OF rest])
  finally show ?case by simp
qed

lemma waitForPodRunning_terminal:
  assumes "\<forall>p\<in>set ps. non_terminal p" and "done' (snd (fetched g))"
  shows "waitForPodRunning ctxErr pod (map (\<lambda>p. Recv (Inr p)) ps @ Recv g # rest) tr =
         (Some (phase (snd (fetched g)), err (snd (fetched g))),
          tr @ concat (map (\<lambda>p. iteration pod (Inr p)) ps) @ iteration pod g)"
  using assms(2)
  by (simp only: waitForPodRunning_pending [OF assms(1)] waitForPodRunning_Recv if_True
      append_assoc)

lemma fetches_terminal:
  "fetches (concat (map (\<lambda>p. iteration pod (Inr p)) ps) @ iteration pod g) = length ps + 1"
  using fetches_iterations [of pod "map Inr ps"]
  by (simp add: fetches_append fetches_iteration comp_def)

text \<open>
  Claim C3, as the code has it. Whatever the first \<open>select\<close> receives, the fetch of that
  iteration has been started before; so when the cancellation case is taken first (as
  with a signal that is cancelled before the call) the waiter returns phase
  \<open>Unknown\<close> and the cancellation's error at once, without waiting for the fetch, but
  exactly one fetch has been started, not none. On every sequence of outcomes the first
  effect of the waiter is to start a fetch.
\<close>

theorem waitForPodRunning_cancelled:
  "waitForPodRunning ctxErr pod (CtxDone # rest) [] =
     (Some (PodUnknown, Some ctxErr), [FetchStarted (Namespace pod) (Name pod)])
   \<and> fetches (snd (waitForPodRunning ctxErr pod (CtxDone # rest) [])) = 1
   \<and> take 1 (snd (waitForPodRunning ctxErr pod outcomes [])) =
       [FetchStarted (Namespace pod) (Name pod)]"
proof -
  have first: "take 1 (snd (waitForPodRunning ctxErr pod outcomes [])) =
       [FetchStarted (Namespace pod) (Name pod)]"
  proof (cases outcomes)
    case Nil
    then show ?thesis by simp
  next
    case (Cons o1 rest')
    then show ?thesis
    proof (cases o1)
      case CtxDone
      with Cons show ?thesis by simp
    next
      case (Recv g)
      have "\<exists>tl. snd (waitForPodRunning ctxErr pod rest' tr) = tr @ tl" for tr
      proof (induction rest' arbitrary: tr)
        case Nil
        show ?case by simp
      next
        case (Cons o2 os)
        show ?case
        proof (cases o2)
          case CtxDone
          then show ?thesis by simp
        next
          case (Recv g2)
          from Cons.IH [of "tr @ iteration pod g2"]
          obtain tl where "snd (waitForPodRunning ctxErr pod os (tr @ iteration pod g2))
              = (tr @ iteration pod g2) @ tl" by blast
          with Recv show ?thesis
            by (simp only: waitForPodRunning_Recv) (simp split: if_splits)
        qed
      qed
      from this [of "iteration pod g"]
      obtain tl where "snd (waitForPodRunning ctxErr pod rest' ([] @ iteration pod g))
          = iteration pod g @ tl" by auto
      with Cons Recv show ?thesis
        by (simp only: waitForPodRunning_Recv) (simp add: iteration_def split: if_splits)
    qed
  qed
  have "waitForPodRunning ctxErr pod (CtxDone # rest) [] =
     (Some (PodUnknown, Some ctxErr), [FetchStarted (Namespace pod) (Name pod)])"
    by simp
  moreover have "fetches (snd (waitForPodRunning ctxErr pod (CtxDone # rest) [])) = 1"
    by (simp add: fetches_def)
  ultimately show ?thesis using first by blast
qed

text \<open>
  The claim as stated (no fetch is issued when the signal is already cancelled) fails:
  with the cancellation case taken by the very first \<open>select\<close>, one fetch of the pod has
  been started.
\<close>

theorem waitForPodRunning_cancelled_counterexample:
  "waitForPodRunning ''context canceled''
      \<lparr>Namespace = ''gitlab'', Name = ''runner-build'', Phase = []\<rparr> [CtxDone] []
     = (Some (''Unknown'', Some ''context canceled''),
        [FetchStarted ''gitlab'' ''runner-build''])
   \<and> fetches (snd (waitForPodRunning ''context canceled''
        \<lparr>Namespace = ''gitlab'', Name = ''runner-build'', Phase = []\<rparr> [CtxDone] [])) \<noteq> 0"
  by (simp add: fetches_def PodUnknown_def)

text \<open>
  Claim C7. Let the first \<open>length ps\<close> fetches each report a non-terminal phase and let
  the next fetch be received (no cancellation is taken before). If that fetch reports
  \<open>Running\<close> the waiter returns (Running, no error); if it reports \<open>Succeeded\<close>, it
  returns (Succeeded, the early-completion error), also when \<open>ps\<close> is empty; if it
  reports \<open>Failed\<close>, (Failed, an error); if the fetch itself fails, (Unknown, the fetch
  error). Exactly \<open>length ps + 1\<close> fetches have been started by then.
\<close>

theorem waitForPodRunning_results:
  assumes "\<forall>p\<in>set ps. non_terminal p"
  shows "(Phase q = PodRunning \<longrightarrow>
            fst (waitForPodRunning ctxErr pod (map (\<lambda>p. Recv (Inr p)) ps @ Recv (Inr q) # rest) [])
              = Some (PodRunning, None))
       \<and> (Phase q = PodSucceeded \<longrightarrow>
            fst (waitForPodRunning ctxErr pod (map (\<lambda>p. Recv (Inr p)) ps @ Recv (Inr q) # rest) [])
              = Some (PodSucceeded, Some ''pod already succeeded before it begins running''))
       \<and> (Phase q = PodFailed \<longrightarrow>
            fst (waitForPodRunning ctxErr pod (map (\<lambda>p. Recv (Inr p)) ps @ Recv (Inr q) # rest) [])
              = Some (PodFailed, Some ''pod status is failed''))
       \<and> fst (waitForPodRunning ctxErr pod (map (\<lambda>p. Recv (Inr p)) ps @ Recv (Inl e) # rest) [])
              = Some (PodUnknown, Some e)
       \<and> (\<not> non_terminal q \<longrightarrow>
            fetches (snd (waitForPodRunning ctxErr pod
              (map (\<lambda>p. Recv (Inr p)) ps @ Recv (Inr q) # rest) [])) = length ps + 1)
       \<and> fetches (snd (waitForPodRunning ctxErr pod
              (map (\<lambda>p. Recv (Inr p)) ps @ Recv (Inl e) # rest) [])) = length ps + 1"
proof -
  have phases: "PodRunning \<noteq> PodSucceeded" "PodRunning \<noteq> PodFailed" "PodSucceeded \<noteq> PodFailed"
    by (simp_all add: PodRunning_def PodSucceeded_def PodFailed_def)
  have terminal: "\<not> non_terminal q \<Longrightarrow> done' (snd (fetched (Inr q)))"
    by (auto simp: non_terminal_def fetched_def)
  have failed: "done' (snd (fetched (Inl e)))"
    by (simp add: fetched_def)
  have running: "Phase q = PodRunning \<Longrightarrow>
      fst (waitForPodRunning ctxErr pod (map (\<lambda>p. Recv (Inr p)) ps @ Recv (Inr q) # rest) [])
        = Some (PodRunning, None)"
    by (subst waitForPodRunning_terminal [OF assms]) (simp_all add: fetched_def)
  have succeeded: "Phase q = PodSucceeded \<Longrightarrow>
      fst (waitForPodRunning ctxErr pod (map (\<lambda>p. Recv (Inr p)) ps @ Recv (Inr q) # rest) [])
        = Some (PodSucceeded, Some ''pod already succeeded before it begins running'')"
    using phases by (subst waitForPodRunning_terminal [OF assms]) (simp_all add: fetched_def)
  have failedp: "Phase q = PodFailed \<Longrightarrow>
      fst (waitForPodRunning ctxErr pod (map (\<lambda>p. Recv (Inr p)) ps @ Recv (Inr q) # rest) [])
        = Some (PodFailed, Some ''pod status is failed'')"
    using phases by (subst waitForPodRunning_terminal [OF assms]) (simp_all add: fetched_def)
  have unknown:
      "fst (waitForPodRunning ctxErr pod (map (\<lambda>p. Recv (Inr p)) ps @ Recv (Inl e) # rest) [])
        = Some (PodUnknown, Some e)"
    by (subst waitForPodRunning_terminal [OF assms failed]) (simp add: fetched_def)
  have count1: "\<not> non_terminal q \<Longrightarrow>
      fetches (snd (waitForPodRunning ctxErr pod
        (map (\<lambda>p. Recv (Inr p)) ps @ Recv (Inr q) # rest) [])) = length ps + 1"
    using fetches_terminal [of pod ps "Inr q"]
    by (subst waitForPodRunning_terminal [OF assms]) (simp_all add: terminal)
  have count2: "fetches (snd (waitForPodRunning ctxErr pod
        (map (\<lambda>p. Recv (Inr p)) ps @ Recv (Inl e) # rest) [])) = length ps + 1"
    using fetches_terminal [of pod ps "Inl e"]
    by (subst waitForPodRunning_terminal [OF assms failed]) simp
  from running succeeded failedp unknown count1 count2 show ?thesis by blast
qed

theorem waitForPodRunning_results_witness:
  "fst (waitForPodRunning ''context canceled''
         \<lparr>Namespace = ''gitlab'', Name = ''runner-build'', Phase = []\<rparr>
         [Recv (Inr \<lparr>Namespace = ''gitlab'', Name = ''runner-build'', Phase = ''Pending''\<rparr>),
          Recv (Inr \<lparr>Namespace = ''gitlab'', Name = ''runner-build'', Phase = ''Unknown''\<rparr>),
          Recv (Inr \<lparr>Namespace = ''gitlab'', Name = ''runner-build'', Phase = ''Running''\<rparr>)] [])
     = Some (''Running'', None)
   \<and> fetches (snd (waitForPodRunning ''context canceled''
         \<lparr>Namespace = ''gitlab'', Name = ''runner-build'', Phase = []\<rparr>
         [Recv (Inr \<lparr>Namespace = ''gitlab'', Name = ''runner-build'', Phase = ''Pending''\<rparr>),
          Recv (Inr \<lparr>Namespace = ''gitlab'', Name = ''runner-build'', Phase = ''Unknown''\<rparr>),
          Recv (Inr \<lparr>Namespace = ''gitlab'', Name = ''runner-build'', Phase = ''Running''\<rparr>)] []))
     = 3
   \<and> fst (waitForPodRunning ''context canceled''
         \<lparr>Namespace = ''gitlab'', Name = ''runner-build'', Phase = []\<rparr>
         [Recv (Inr \<lparr>Namespace = ''gitlab'', Name = ''runner-build'', Phase = ''Succeeded''\<rparr>)] [])
     = Some (''Succeeded'', Some ''pod already succeeded before it begins running'')
   \<and> fst (waitForPodRunning ''context canceled''
         \<lparr>Namespace = ''gitlab'', Name = ''runner-build'', Phase = []\<rparr>
         [Recv (Inr \<lparr>Namespace = ''gitlab'', Name = ''runner-build'', Phase = ''Pending''\<rparr>),
          Recv (Inr \<lparr>Namespace = ''gitlab'', Name = ''runner-build'', Phase = ''Failed''\<rparr>)] [])
     = Some (''Failed'', Some ''pod status is failed'')
   \<and> fst (waitForPodRunning ''context canceled''
         \<lparr>Namespace = ''gitlab'', Name = ''runner-build'', Phase = []\<rparr>
         [Recv (Inr \<lparr>Namespace = ''gitlab'', Name = ''runner-build'', Phase = ''Pending''\<rparr>),
          Recv (Inl ''connection refused'')] [])
     = Some (''Unknown'', Some ''connection refused'')"
  using
    waitForPodRunning_results [where
      ps = "[\<lparr>Namespace = ''gitlab'', Name = ''runner-build'', Phase = ''Pending''\<rparr>,
             \<lparr>Namespace = ''gitlab'', Name = ''runner-build'', Phase = ''Unknown''\<rparr>]"
      and q = "\<lparr>Namespace = ''gitlab'', Name = ''runner-build'', Phase = ''Running''\<rparr>"
      and ctxErr = "''context canceled''"
      and pod = "\<lparr>Namespace = ''gitlab'', Name = ''runner-build'', Phase = []\<rparr>"
      and rest = "[]" and e = "''connection refused''"]
    waitForPodRunning_results [where
      ps = "[]"
      and q = "\<lparr>Namespace = ''gitlab'', Name = ''runner-build'', Phase = ''Succeeded''\<rparr>"
      and ctxErr = "''context canceled''"
      and pod = "\<lparr>Namespace = ''gitlab'', Name = ''runner-build'', Phase = []\<rparr>"
      and rest = "[]" and e = "''connection refused''"]
    waitForPodRunning_results [where
      ps = "[\<lparr>Namespace = ''gitlab'', Name = ''runner-build'', Phase = ''Pending''\<rparr>]"
      and q = "\<lparr>Namespace = ''gitlab'', Name = ''runner-build'', Phase = ''Failed''\<rparr>"
      and ctxErr = "''context canceled''"
      and pod = "\<lparr>Namespace = ''gitlab'', Name = ''runner-build'', Phase = []\<rparr>"
      and rest = "[]" and e = "''connection refused''"]
  by (simp add: non_terminal_def PodRunning_def PodSucceeded_def PodFailed_def PodUnknown_def)

section \<open>Properties of the transport state\<close>

lemma createTransport_rebuilt: "rebuilt h (createTransport e h n)"
  by (simp add: createTransport_def rebuilt_def Let_def split: sum.splits prod.splits)

lemma Transport_None_update: "Transport n = None \<Longrightarrow> n\<lparr>Transport := None\<rparr> = n"
  by (cases n) simp

lemma ensureTLSConfig_fresh:
  assumes "Transport n = None \<or> stale e n"
  shows "ensureTLSConfig e h n =
         createTransport e h (n\<lparr>Transport := None, updateTime := time_Now e\<rparr>)"
  using assms
  by (cases "os_Stat e (caFile n)")
     (auto simp: ensureTLSConfig_def stale_def Let_def Transport_None_update)

lemma ensureTLSConfig_kept:
  assumes "\<not> (Transport n = None \<or> stale e n)"
  shows "ensureTLSConfig e h n = (h, n)"
  using assms
  by (cases "os_Stat e (caFile n)") (auto simp: ensureTLSConfig_def stale_def Let_def)

text \<open>
  Claim C5. A call of \<open>ensureTLSConfig\<close> rebuilds the transport (allocates a new
  transport object and points the client to it) if and only if the client has no
  transport or the CA file's modification time is strictly after \<open>updateTime\<close>. In
  every other case, which includes a CA file that cannot be stat'ed, the heap and the
  whole client, so also the transport pointer and the object it points to, are unchanged.
  A rebuild records the current time as \<open>updateTime\<close>.
\<close>

theorem ensureTLSConfig_rebuild_iff:
  "(rebuilt h (ensureTLSConfig e h n) \<longleftrightarrow> Transport n = None \<or> stale e n)
   \<and> (\<not> (Transport n = None \<or> stale e n) \<longrightarrow> ensureTLSConfig e h n = (h, n))
   \<and> (Transport n = None \<or> stale e n \<longrightarrow>
        updateTime (snd (ensureTLSConfig e h n)) = time_Now e)
   \<and> (os_Stat e (caFile n) = Inl failure \<and> Transport n = Some a \<longrightarrow>
        ensureTLSConfig e h n = (h, n))"
proof (cases "Transport n = None \<or> stale e n")
  case True
  have "rebuilt h (ensureTLSConfig e h n)"
    by (simp only: ensureTLSConfig_fresh [OF True] createTransport_rebuilt)
  moreover have "updateTime (snd (ensureTLSConfig e h n)) = time_Now e"
    by (simp add: ensureTLSConfig_fresh [OF True] createTransport_def Let_def
        split: sum.splits prod.splits)
  moreover have "\<not> (os_Stat e (caFile n) = Inl failure \<and> Transport n = Some a)"
    using True by (auto simp: stale_def)
  ultimately show ?thesis using True by blast
next
  case False
  have kept: "ensureTLSConfig e h n = (h, n)"
    by (rule ensureTLSConfig_kept [OF False])
  have "\<not> rebuilt h (h, n)"
    by (simp add: rebuilt_def)
  with kept have "\<not> rebuilt h (ensureTLSConfig e h n)"
    by simp
  with kept False show ?thesis by blast
qed

theorem ensureTLSConfig_rebuild_iff_witness:
  "rebuilt [] (ensureTLSConfig example_env [] example_client)
   \<and> updateTime (snd (ensureTLSConfig example_env [] example_client)) = 300
   \<and> Transport (snd (ensureTLSConfig example_env [example_transport]
        (example_client\<lparr>Transport := Some 0, updateTime := 100\<rparr>))) = Some 1
   \<and> ensureTLSConfig example_env [example_transport]
        (example_client\<lparr>Transport := Some 0, updateTime := 200\<rparr>)
       = ([example_transport], example_client\<lparr>Transport := Some 0, updateTime := 200\<rparr>)
   \<and> ensureTLSConfig example_env [example_transport]
        (example_client\<lparr>Transport := Some 0, caFile := ''gone.crt''\<rparr>)
       = ([example_transport], example_client\<lparr>Transport := Some 0, caFile := ''gone.crt''\<rparr>)"
proof -
  have s1: "Transport example_client = None"
    by (simp add: example_client_def)
  have s2: "stale example_env (example_client\<lparr>Transport := Some 0, updateTime := 100\<rparr>)"
    by (simp add: stale_def example_env_def example_client_def)
  have s3: "\<not> (Transport (example_client\<lparr>Transport := Some 0, updateTime := 200\<rparr>) = None
              \<or> stale example_env (example_client\<lparr>Transport := Some 0, updateTime := 200\<rparr>))"
    by (simp add: stale_def example_env_def example_client_def)
  have s4: "os_Stat example_env (caFile (example_client\<lparr>Transport := Some 0, caFile := ''gone.crt''\<rparr>))
              = Inl ''stat: no such file or directory''
            \<and> Transport (example_client\<lparr>Transport := Some 0, caFile := ''gone.crt''\<rparr>) = Some 0"
    by (simp add: example_env_def)
  have now: "time_Now example_env = 300"
    by (simp add: example_env_def)
  from s1 now ensureTLSConfig_rebuild_iff [of "[]" example_env example_client]
  have c1: "rebuilt [] (ensureTLSConfig example_env [] example_client)
            \<and> updateTime (snd (ensureTLSConfig example_env [] example_client)) = 300"
    by simp
  from s2 ensureTLSConfig_rebuild_iff [of "[example_transport]" example_env
      "example_client\<lparr>Transport := Some 0, updateTime := 100\<rparr>"]
  have "rebuilt [example_transport] (ensureTLSConfig example_env [example_transport]
          (example_client\<lparr>Transport := Some 0, updateTime := 100\<rparr>))"
    by blast
  then have c2: "Transport (snd (ensureTLSConfig example_env [example_transport]
        (example_client\<lparr>Transport := Some 0, updateTime := 100\<rparr>))) = Some 1"
    by (simp add: rebuilt_def)
  from s3 ensureTLSConfig_rebuild_iff [of "[example_transport]" example_env
      "example_client\<lparr>Transport := Some 0, updateTime := 200\<rparr>"]
  have c3: "ensureTLSConfig example_env [example_transport]
        (example_client\<lparr>Transport := Some 0, updateTime := 200\<rparr>)
       = ([example_transport], example_client\<lparr>Transport := Some 0, updateTime := 200\<rparr>)"
    by blast
  from s4 ensureTLSConfig_rebuild_iff [of "[example_transport]" example_env
      "example_client\<lparr>Transport := Some 0, caFile := ''gone.crt''\<rparr>"
      "''stat: no such file or directory''" 0]
  have c4: "ensureTLSConfig example_env [example_transport]
        (example_client\<lparr>Transport := Some 0, caFile := ''gone.crt''\<rparr>)
       = ([example_transport], example_client\<lparr>Transport := Some 0, caFile := ''gone.crt''\<rparr>)"
    by blast
  from c1 c2 c3 c4 show ?thesis by blast
qed

section \<open>Properties of the trust chain\<close>

lemma hextable_nth_inj:
  assumes "i < 16" "j < 16" "hextable ! i = hextable ! j"
  shows "i = j"
proof -
  have d: "distinct hextable" by (simp add: hextable_def)
  have l: "length hextable = 16" by (simp add: hextable_def)
  from assms d l show ?thesis by (simp add: nth_eq_iff_index_eq)
qed

lemma hex_byte_inj:
  assumes "[hextable ! ((of_char v :: nat) div 16), hextable ! ((of_char v :: nat) mod 16)]
         = [hextable ! ((of_char w :: nat) div 16), hextable ! ((of_char w :: nat) mod 16)]"
  shows "v = w"
proof -
  have bv: "(of_char v :: nat) < 256" and bw: "(of_char w :: nat) < 256"
    by (simp_all add: of_char_def)
  then have "(of_char v :: nat) div 16 < 16" "(of_char w :: nat) div 16 < 16"
    by (simp_all add: less_mult_imp_div_less)
  with assms have hi: "(of_char v :: nat) div 16 = (of_char w :: nat) div 16"
    by (auto intro: hextable_nth_inj)
  have "(of_char v :: nat) mod 16 < 16" "(of_char w :: nat) mod 16 < 16" by simp_all
  with assms have lo: "(of_char v :: nat) mod 16 = (of_char w :: nat) mod 16"
    by (auto intro: hextable_nth_inj)
  from hi lo have "(of_char v :: nat) = of_char w"
    by (metis div_mult_mod_eq)
  then show ?thesis by simp
qed

lemma EncodeToString_inj: "EncodeToString xs = EncodeToString ys \<Longrightarrow> xs = ys"
proof (induction xs arbitrary: ys)
  case Nil
  then show ?case by (cases ys) (simp_all add: EncodeToString_def)
next
  case (Cons x xs)
  then show ?case
  proof (cases ys)
    case Nil
    with Cons.prems show ?thesis by (simp add: EncodeToString_def)
  next
    case (Cons y ys')
    with Cons.prems have hd: "[hextable ! ((of_char x :: nat) div 16), hextable ! ((of_char x :: nat) mod 16)]
         = [hextable ! ((of_char y :: nat) div 16), hextable ! ((of_char y :: nat) mod 16)]"
      and tl: "EncodeToString xs = EncodeToString ys'"
      by (simp_all add: EncodeToString_def)
    from hex_byte_inj [OF hd] Cons.IH [OF tl] Cons show ?thesis by simp
  qed
qed

lemma chain_loop_append:
  "chain_loop (xs @ ys) st = chain_loop ys (chain_loop xs st)"
  by (induction xs st rule: chain_loop.induct) (simp_all add: Let_def)

lemma chain_loop_Nil: "chain_loop [] st = st"
  by (cases st) simp

lemma chains_loop_concat: "chains_loop css st = chain_loop (concat css) st"
  by (induction css arbitrary: st) (simp_all add: chain_loop_append chain_loop_Nil)

lemma chain_loop_first_seen:
  assumes "seen_inv got seen"
  shows "fst (chain_loop xs (got, seen)) =
         got @ first_seen (filter (\<lambda>c. Signature c \<notin> Signature ` set got) xs)"
  using assms
proof (induction xs arbitrary: got seen)
  case Nil
  show ?case by simp
next
  case (Cons x xs)
  show ?case
  proof (cases "Signature x \<in> Signature ` set got")
    case True
    with Cons.prems have "seen_lookup seen (EncodeToString (Signature x))"
      by (simp add: seen_inv_def)
    with True Cons.IH [OF Cons.prems] show ?thesis by simp
  next
    case False
    with Cons.prems have ns: "\<not> seen_lookup seen (EncodeToString (Signature x))"
      by (simp add: seen_inv_def)
    have inv': "seen_inv (got @ [x]) (seen(EncodeToString (Signature x) \<mapsto> True))"
      using Cons.prems
      by (auto simp: seen_inv_def seen_lookup_def dest: EncodeToString_inj)
    have flt: "filter (\<lambda>c. Signature c \<notin> Signature ` set (got @ [x])) xs
        = filter (\<lambda>d. Signature d \<noteq> Signature x) (filter (\<lambda>c. Signature c \<notin> Signature ` set got) xs)"
      by (auto intro: filter_cong)
    have "fst (chain_loop (x # xs) (got, seen))
        = fst (chain_loop xs (got @ [x], seen(EncodeToString (Signature x) \<mapsto> True)))"
      using ns by simp
    also have "\<dots> = (got @ [x])
        @ first_seen (filter (\<lambda>c. Signature c \<notin> Signature ` set (got @ [x])) xs)"
      by (rule Cons.IH [OF inv'])
    also have "\<dots> = got
        @ first_seen (filter (\<lambda>c. Signature c \<notin> Signature ` set got) (x # xs))"
      using False by (simp only: flt) simp
    finally show ?thesis .
  qed
qed

lemma collect_first_seen: "collect st = first_seen (concat (VerifiedChains st))"
  using chain_loop_first_seen [of "[]" Map.empty "concat (VerifiedChains st)"]
  by (simp add: collect_def chains_loop_concat seen_inv_def seen_lookup_def)

lemma first_seen_set: "set (first_seen xs) \<subseteq> set xs"
  by (induction xs rule: first_seen.induct) auto

lemma first_seen_sigs: "Signature ` set (first_seen xs) = Signature ` set xs"
  by (induction xs rule: first_seen.induct) auto

lemma first_seen_subseq: "subseq (first_seen xs) xs"
proof (induction xs rule: first_seen.induct)
  case 1
  show ?case by simp
next
  case (2 c cs)
  have "subseq (filter (\<lambda>d. Signature d \<noteq> Signature c) cs) cs" by simp
  with 2 have "subseq (first_seen (filter (\<lambda>d. Signature d \<noteq> Signature c) cs)) cs"
    using subseq_order.order_trans by blast
  then show ?case by simp
qed

lemma first_seen_distinct: "distinct (map Signature (first_seen xs))"
proof (induction xs rule: first_seen.induct)
  case 1
  show ?case by simp
next
  case (2 c cs)
  have "Signature c \<notin> Signature ` set (first_seen (filter (\<lambda>d. Signature d \<noteq> Signature c) cs))"
    using first_seen_set [of "filter (\<lambda>d. Signature d \<noteq> Signature c) cs"] by auto
  with 2 show ?case by simp
qed

text \<open>
  Claim C6. \<open>getCAChain\<close> returns the cached CA bytes unchanged when they are not
  empty. Otherwise, without a connection state it returns the empty string, and with one
  it returns the PEM blocks of the collected certificates, concatenated in order. The
  collected certificates have pairwise different signatures; they are the certificates
  of all verified chains, in discovery order, of which each is kept when no earlier one
  has its signature (\<open>first_seen\<close>): a subsequence of the chains' certificates in which
  every signature that occurs in a chain occurs.
\<close>

theorem getCAChain_chain:
  "(caData n \<noteq> [] \<longrightarrow> getCAChain e n tls = caData n)
   \<and> (caData n = [] \<longrightarrow> getCAChain e n None = [])
   \<and> (caData n = [] \<longrightarrow>
        getCAChain e n (Some st)
          = concat (map (\<lambda>c. pem_Encode e ''CERTIFICATE'' (Raw c)) (collect st)))
   \<and> distinct (map Signature (collect st))
   \<and> collect st = first_seen (concat (VerifiedChains st))
   \<and> subseq (collect st) (concat (VerifiedChains st))
   \<and> Signature ` set (collect st) = Signature ` set (concat (VerifiedChains st))"
proof -
  have cached: "caData n \<noteq> [] \<longrightarrow> getCAChain e n tls = caData n"
    by (simp add: getCAChain_def)
  have nostate: "caData n = [] \<longrightarrow> getCAChain e n None = []"
    by (simp add: getCAChain_def)
  have built: "caData n = [] \<longrightarrow>
        getCAChain e n (Some st)
          = concat (map (\<lambda>c. pem_Encode e ''CERTIFICATE'' (Raw c)) (collect st))"
    by (simp add: getCAChain_def)
  have dist: "distinct (map Signature (collect st))"
    by (simp only: collect_first_seen first_seen_distinct)
  have sub: "subseq (collect st) (concat (VerifiedChains st))"
    by (simp only: collect_first_seen first_seen_subseq)
  have sigs: "Signature ` set (collect st) = Signature ` set (concat (VerifiedChains st))"
    by (simp only: collect_first_seen first_seen_sigs)
  from cached nostate built dist collect_first_seen [of st] sub sigs show ?thesis
    by blast
qed

theorem getCAChain_chain_witness:
  "getCAChain example_env (example_client\<lparr>caData := ''PEM''\<rparr>) (Some example_tls) = ''PEM''
   \<and> getCAChain example_env example_client None = []
   \<and> collect example_tls = [leaf_cert, ca_cert, root_cert]
   \<and> getCAChain example_env example_client (Some example_tls)
       = ''[BEGIN CERTIFICATE]leaf[END][BEGIN CERTIFICATE]ca[END][BEGIN CERTIFICATE]root[END]''"
proof -
  have c1: "caData (example_client\<lparr>caData := ''PEM''\<rparr>) \<noteq> []"
    by simp
  have c2: "caData example_client = []"
    by (simp add: example_client_def)
  have fs: "first_seen (concat (VerifiedChains example_tls)) = [leaf_cert, ca_cert, root_cert]"
    by (simp add: example_tls_def leaf_cert_def ca_cert_def cross_cert_def root_cert_def)
  have pem: "concat (map (\<lambda>c. pem_Encode example_env ''CERTIFICATE'' (Raw c))
                [leaf_cert, ca_cert, root_cert])
      = ''[BEGIN CERTIFICATE]leaf[END][BEGIN CERTIFICATE]ca[END][BEGIN CERTIFICATE]root[END]''"
    by (simp add: example_env_def leaf_cert_def ca_cert_def root_cert_def)
  from getCAChain_chain [of "example_client\<lparr>caData := ''PEM''\<rparr>" example_env
      "Some example_tls" example_tls] c1
  have w1: "getCAChain example_env (example_client\<lparr>caData := ''PEM''\<rparr>) (Some example_tls)
      = ''PEM''"
    by simp
  from getCAChain_chain [of example_client example_env None example_tls] c2 fs pem
  have w2: "getCAChain example_env example_client None = []
     \<and> collect example_tls = [leaf_cert, ca_cert, root_cert]
     \<and> getCAChain example_env example_client (Some example_tls)
       = ''[BEGIN CERTIFICATE]leaf[END][BEGIN CERTIFICATE]ca[END][BEGIN CERTIFICATE]root[END]''"
    by simp
  from w1 w2 show ?thesis by blast
qed

section \<open>Properties of the JSON call\<close>

lemma doJSON_sent:
  "doJSON e h n uri method statusCode request response =
     (case sent e h n uri method request response of
        Inl f \<Rightarrow> ((- 1, ''failed to marshal project object: '' @ f, []), (h, n), response)
      | Inr (hn, Inl f) \<Rightarrow> ((- 1, f, []), hn, response)
      | Inr (hn, Inr res) \<Rightarrow>
          (if StatusCode res = statusCode then
             (case response of
                Some target \<Rightarrow>
                  (if Header_Get (res_Header res) ''Content-Type'' \<noteq> ''application/json'' then
                     ((- 1, ''Server should return application/json. Got: ''
                            @ Header_Get (res_Header res) ''Content-Type'', []), hn, response)
                   else
                     (case json_Decode e (res_Body res) target of
                        (target', Some f) \<Rightarrow>
                          ((- 1, ''Error decoding json payload '' @ f, []), hn, Some target')
                      | (target', None) \<Rightarrow>
                          ((StatusCode res, Status res, getCAChain e (snd hn) (TLS res)),
                           hn, Some target')))
              | None \<Rightarrow>
                  ((StatusCode res, Status res, getCAChain e (snd hn) (TLS res)), hn, response))
           else ((StatusCode res, Status res, getCAChain e (snd hn) (TLS res)), hn, response)))"
proof -
  have none: ?thesis if "request = None"
    using that unfolding doJSON_def sent_def Let_def
    by (simp split del: if_split)
  have some: ?thesis if "request = Some rq" for rq
    using that unfolding doJSON_def sent_def Let_def
    by (cases "json_Marshal e rq") (simp_all split del: if_split)
  from none some show ?thesis
    by (cases request) blast+
qed

lemma doJSON_marshal_failure:
  assumes "sent e h n uri method request response = Inl f"
  shows "doJSON e h n uri method statusCode request response
         = ((- 1, ''failed to marshal project object: '' @ f, []), (h, n), response)"
  by (simp add: doJSON_sent assms)

lemma doJSON_send_failure:
  assumes "sent e h n uri method request response = Inr (hn, Inl f)"
  shows "doJSON e h n uri method statusCode request response = ((- 1, f, []), hn, response)"
  by (simp add: doJSON_sent assms)

lemma doJSON_rejected:
  assumes "sent e h n uri method request response = Inr (hn, Inr res)"
    and "rejected e statusCode response res"
  shows "fst (fst (doJSON e h n uri method statusCode request response)) = - 1
       \<and> snd (snd (fst (doJSON e h n uri method statusCode request response))) = []"
  using assms(2)
  by (auto simp: doJSON_sent assms(1) rejected_def split: option.splits prod.splits)

lemma doJSON_accepted:
  assumes "sent e h n uri method request response = Inr (hn, Inr res)"
    and "\<not> rejected e statusCode response res"
  shows "fst (doJSON e h n uri method statusCode request response)
         = (StatusCode res, Status res, getCAChain e (snd hn) (TLS res))"
  using assms(2)
  by (auto simp: doJSON_sent assms(1) rejected_def split: option.splits prod.splits)

lemma sent_marshal_failure:
  "(\<exists>f. sent e h n uri m request response = Inl f)
   \<longleftrightarrow> (\<exists>rq f. request = Some rq \<and> json_Marshal e rq = Inl f)"
  by (auto simp: sent_def split: option.splits sum.splits)

lemma do_failure:
  assumes "do e h n uri method request requestType headers = (hn, Inl f)"
  shows "url_Parse e (url n) uri = Inl f
       \<or> (\<exists>u g. url_Parse e (url n) uri = Inr u \<and> http_NewRequest e method u request = Inl g
                \<and> f = ''failed to create NewRequest: '' @ g)
       \<or> (\<exists>t req g. http_Do e t req = Inl g
                \<and> f = ''couldn't execute '' @ Method req @ '' against '' @ URL req @ '': '' @ g)"
proof (cases "url_Parse e (url n) uri")
  case (Inl g)
  with assms show ?thesis by (simp add: do_def)
next
  case (Inr u)
  show ?thesis
  proof (cases "http_NewRequest e method u request")
    case (Inl g)
    with Inr assms show ?thesis by (simp add: do_def)
  next
    case req: (Inr req0)
    from assms Inr req show ?thesis
      unfolding do_def Let_def
      by (simp split: prod.splits sum.splits) blast
  qed
qed

lemma example_ensure:
  "ensureTLSConfig example_env [] example_client
     = ([example_transport], example_client\<lparr>Transport := Some 0, updateTime := 300\<rparr>)"
  by (simp add: ensureTLSConfig_def createTransport_def example_env_def example_client_def
      example_transport_def Let_def)

lemma example_env_fields:
  "json_Marshal example_env rq = (if rq = [] then Inl ''unsupported value'' else Inr rq)"
  "url_Parse example_env base ref
     = (if ref = ''%zz'' then Inl ''invalid URL escape'' else Inr (base @ ref))"
  "http_NewRequest example_env method u body
     = Inr \<lparr>Method = method, URL = u, req_Header = Map.empty, req_Body = body\<rparr>"
  "UserAgent example_env = ''gitlab-ci-multi-runner''"
  "url example_client = ''https://example.com/ci/api/v1/''"
  by (simp_all add: example_env_def example_client_def)

lemma example_http_Do:
  "http_Do example_env t \<lparr>Method = m, URL = ''https://example.com/ci/api/v1/register'',
       req_Header = hs, req_Body = b\<rparr>
     = Inr \<lparr>StatusCode = 201, Status = ''201 Created'',
            res_Header = [''Content-Type'' \<mapsto> [''application/json'']],
            res_Body = ''{}'', TLS = Some example_tls\<rparr>"
  "http_Do example_env t \<lparr>Method = m, URL = ''https://example.com/ci/api/v1/page'',
       req_Header = hs, req_Body = b\<rparr>
     = Inr \<lparr>StatusCode = 201, Status = ''201 Created'',
            res_Header = [''Content-Type'' \<mapsto> [''text/html'']],
            res_Body = ''<html>'', TLS = Some example_tls\<rparr>"
  "http_Do example_env t \<lparr>Method = m, URL = ''https://example.com/ci/api/v1/broken'',
       req_Header = hs, req_Body = b\<rparr>
     = Inr \<lparr>StatusCode = 201, Status = ''201 Created'',
            res_Header = [''Content-Type'' \<mapsto> [''application/json'']],
            res_Body = ''{'', TLS = Some example_tls\<rparr>"
  "http_Do example_env t \<lparr>Method = m, URL = ''https://example.com/ci/api/v1/missing'',
       req_Header = hs, req_Body = b\<rparr>
     = Inr \<lparr>StatusCode = 404, Status = ''404 Not Found'',
            res_Header = [''Content-Type'' \<mapsto> [''text/html'']],
            res_Body = ''<html>'', TLS = Some example_tls\<rparr>"
  "http_Do example_env t \<lparr>Method = m, URL = ''https://example.com/ci/api/v1/nowhere'',
       req_Header = hs, req_Body = b\<rparr>
     = Inl ''dial tcp: connection refused''"
  by (simp_all add: example_env_def)

lemma example_sent:
  "sent example_env [] example_client ''register'' ''POST'' (Some ''{a}'') (Some ''old'')
     = Inr (([example_transport], example_client\<lparr>Transport := Some 0, updateTime := 300\<rparr>),
            Inr \<lparr>StatusCode = 201, Status = ''201 Created'',
                 res_Header = [''Content-Type'' \<mapsto> [''application/json'']],
                 res_Body = ''{}'', TLS = Some example_tls\<rparr>)"
  "sent example_env [] example_client ''page'' ''POST'' (Some ''{a}'') (Some ''old'')
     = Inr (([example_transport], example_client\<lparr>Transport := Some 0, updateTime := 300\<rparr>),
            Inr \<lparr>StatusCode = 201, Status = ''201 Created'',
                 res_Header = [''Content-Type'' \<mapsto> [''text/html'']],
                 res_Body = ''<html>'', TLS = Some example_tls\<rparr>)"
  "sent example_env [] example_client ''broken'' ''POST'' (Some ''{a}'') (Some ''old'')
     = Inr (([example_transport], example_client\<lparr>Transport := Some 0, updateTime := 300\<rparr>),
            Inr \<lparr>StatusCode = 201, Status = ''201 Created'',
                 res_Header = [''Content-Type'' \<mapsto> [''application/json'']],
                 res_Body = ''{'', TLS = Some example_tls\<rparr>)"
  "sent example_env [] example_client ''missing'' ''POST'' (Some ''{a}'') (Some ''old'')
     = Inr (([example_transport], example_client\<lparr>Transport := Some 0, updateTime := 300\<rparr>),
            Inr \<lparr>StatusCode = 404, Status = ''404 Not Found'',
                 res_Header = [''Content-Type'' \<mapsto> [''text/html'']],
                 res_Body = ''<html>'', TLS = Some example_tls\<rparr>)"
  "sent example_env [] example_client ''nowhere'' ''POST'' (Some ''{a}'') (Some ''old'')
     = Inr (([example_transport], example_client\<lparr>Transport := Some 0, updateTime := 300\<rparr>),
            Inl ''couldn't execute POST against https://example.com/ci/api/v1/nowhere: dial tcp: connection refused'')"
  "sent example_env [] example_client ''register'' ''POST'' (Some []) (Some ''old'')
     = Inl ''unsupported value''"
  by (simp_all add: sent_def do_def example_ensure example_env_fields example_http_Do)

lemma example_chain:
  "getCAChain example_env (example_client\<lparr>Transport := Some 0, updateTime := 300\<rparr>)
     (Some example_tls)
   = ''[BEGIN CERTIFICATE]leaf[END][BEGIN CERTIFICATE]ca[END][BEGIN CERTIFICATE]root[END]''"
proof -
  have "collect example_tls = [leaf_cert, ca_cert, root_cert]"
    by (simp add: collect_first_seen example_tls_def leaf_cert_def ca_cert_def cross_cert_def
        root_cert_def)
  then show ?thesis
    by (simp add: getCAChain_def example_client_def example_env_def leaf_cert_def ca_cert_def
        root_cert_def)
qed

text \<open>
  Claim C2, as the code has it. Provided the status codes of received responses are not
  negative, \<open>doJSON\<close> returns a negative status code exactly in these cases: marshalling
  the request object failed; \<open>do\<close> returned an error (URL resolution, request
  construction or transport); or a response was received and rejected, that is, it has
  the expected status, a response target was supplied, and its content type is not
  \<open>application/json\<close> or its body does not decode. A negative code is always \<open>-1\<close>
  with an empty trust chain. Every received response that is not rejected, in particular
  every response with another status than the expected one, is returned with its own
  status code, status text and trust chain.
\<close>

theorem doJSON_status_code:
  assumes "\<forall>hn res. sent e h n uri method request response = Inr (hn, Inr res)
             \<longrightarrow> 0 \<le> StatusCode res"
  shows "(fst (fst (doJSON e h n uri method statusCode request response)) < 0 \<longleftrightarrow>
            (\<exists>rq f. request = Some rq \<and> json_Marshal e rq = Inl f)
            \<or> (\<exists>hn f. sent e h n uri method request response = Inr (hn, Inl f))
            \<or> (\<exists>hn res. sent e h n uri method request response = Inr (hn, Inr res)
                  \<and> rejected e statusCode response res))
       \<and> (fst (fst (doJSON e h n uri method statusCode request response)) < 0 \<longrightarrow>
            fst (fst (doJSON e h n uri method statusCode request response)) = - 1
            \<and> snd (snd (fst (doJSON e h n uri method statusCode request response))) = [])
       \<and> (\<forall>hn res. sent e h n uri method request response = Inr (hn, Inr res)
              \<and> \<not> rejected e statusCode response res \<longrightarrow>
            fst (doJSON e h n uri method statusCode request response)
              = (StatusCode res, Status res, getCAChain e (snd hn) (TLS res)))
       \<and> (\<forall>hn res. sent e h n uri method request response = Inr (hn, Inr res)
              \<and> StatusCode res \<noteq> statusCode \<longrightarrow>
            fst (doJSON e h n uri method statusCode request response)
              = (StatusCode res, Status res, getCAChain e (snd hn) (TLS res)))"
proof -
  let ?code = "fst (fst (doJSON e h n uri method statusCode request response))"
  let ?chain = "snd (snd (fst (doJSON e h n uri method statusCode request response)))"
  let ?sent = "sent e h n uri method request response"
  let ?failure = "(\<exists>rq f. request = Some rq \<and> json_Marshal e rq = Inl f)
      \<or> (\<exists>hn f. ?sent = Inr (hn, Inl f))
      \<or> (\<exists>hn res. ?sent = Inr (hn, Inr res) \<and> rejected e statusCode response res)"
  have other: "\<not> rejected e statusCode response res" if "StatusCode res \<noteq> statusCode" for res
    using that by (simp add: rejected_def)
  have core: "(?code < 0 \<longleftrightarrow> ?failure) \<and> (?code < 0 \<longrightarrow> ?code = - 1 \<and> ?chain = [])"
  proof (cases ?sent)
    case (Inl f)
    then have "\<exists>rq f. request = Some rq \<and> json_Marshal e rq = Inl f"
      using sent_marshal_failure [of e h n uri "method" request response] by blast
    moreover have "?code = - 1 \<and> ?chain = []"
      by (simp add: doJSON_marshal_failure [OF Inl])
    ultimately show ?thesis by simp
  next
    case (Inr r)
    then have nomarshal: "\<not> (\<exists>rq f. request = Some rq \<and> json_Marshal e rq = Inl f)"
      using sent_marshal_failure [of e h n uri "method" request response] by auto
    obtain hn o1 where r: "r = (hn, o1)" by (cases r)
    show ?thesis
    proof (cases o1)
      case (Inl f)
      with Inr r have s: "?sent = Inr (hn, Inl f)" by simp
      have "?code = - 1 \<and> ?chain = []"
        by (simp add: doJSON_send_failure [OF s])
      with s show ?thesis by auto
    next
      case res: (Inr res)
      with Inr r have s: "?sent = Inr (hn, Inr res)" by simp
      from assms s have nonneg: "0 \<le> StatusCode res" by blast
      show ?thesis
      proof (cases "rejected e statusCode response res")
        case True
        from doJSON_rejected [OF s True] have "?code = - 1 \<and> ?chain = []" .
        with s True show ?thesis by auto
      next
        case False
        from doJSON_accepted [OF s False] have "?code = StatusCode res" by simp
        with nonneg have "\<not> ?code < 0" by simp
        with s False nomarshal show ?thesis by auto
      qed
    qed
  qed
  have accepted: "\<forall>hn res. ?sent = Inr (hn, Inr res) \<and> \<not> rejected e statusCode response res \<longrightarrow>
      fst (doJSON e h n uri method statusCode request response)
        = (StatusCode res, Status res, getCAChain e (snd hn) (TLS res))"
    using doJSON_accepted by blast
  have mismatch: "\<forall>hn res. ?sent = Inr (hn, Inr res) \<and> StatusCode res \<noteq> statusCode \<longrightarrow>
      fst (doJSON e h n uri method statusCode request response)
        = (StatusCode res, Status res, getCAChain e (snd hn) (TLS res))"
    using doJSON_accepted other by blast
  from core accepted mismatch show ?thesis by blast
qed

theorem doJSON_status_code_witness:
  "fst (doJSON example_env [] example_client ''register'' ''POST'' 201 (Some ''{a}'') (Some ''old''))
     = (201, ''201 Created'',
        ''[BEGIN CERTIFICATE]leaf[END][BEGIN CERTIFICATE]ca[END][BEGIN CERTIFICATE]root[END]'')
   \<and> fst (doJSON example_env [] example_client ''missing'' ''POST'' 201 (Some ''{a}'') (Some ''old''))
     = (404, ''404 Not Found'',
        ''[BEGIN CERTIFICATE]leaf[END][BEGIN CERTIFICATE]ca[END][BEGIN CERTIFICATE]root[END]'')
   \<and> fst (fst (doJSON example_env [] example_client ''page'' ''POST'' 201 (Some ''{a}'')
        (Some ''old''))) = - 1
   \<and> fst (fst (doJSON example_env [] example_client ''broken'' ''POST'' 201 (Some ''{a}'')
        (Some ''old''))) = - 1
   \<and> fst (fst (doJSON example_env [] example_client ''nowhere'' ''POST'' 201 (Some ''{a}'')
        (Some ''old''))) = - 1
   \<and> fst (fst (doJSON example_env [] example_client ''register'' ''POST'' 201 (Some [])
        (Some ''old''))) = - 1"
proof -
  have dec: "json_Decode example_env b t
      = (if b = ''{'' then (t, Some ''unexpected EOF'') else (b, None))" for b t
    by (simp add: example_env_def)
  have w1: "fst (doJSON example_env [] example_client ''register'' ''POST'' 201 (Some ''{a}'')
        (Some ''old''))
     = (201, ''201 Created'',
        ''[BEGIN CERTIFICATE]leaf[END][BEGIN CERTIFICATE]ca[END][BEGIN CERTIFICATE]root[END]'')"
    using doJSON_status_code [of example_env "[]" example_client "''register''" "''POST''"
        "Some ''{a}''" "Some ''old''" 201]
    by (simp add: example_sent rejected_def Header_Get_def dec example_chain)
  have w2: "fst (doJSON example_env [] example_client ''missing'' ''POST'' 201 (Some ''{a}'')
        (Some ''old''))
     = (404, ''404 Not Found'',
        ''[BEGIN CERTIFICATE]leaf[END][BEGIN CERTIFICATE]ca[END][BEGIN CERTIFICATE]root[END]'')"
    using doJSON_status_code [of example_env "[]" example_client "''missing''" "''POST''"
        "Some ''{a}''" "Some ''old''" 201]
    by (simp add: example_sent rejected_def example_chain)
  have w3: "fst (fst (doJSON example_env [] example_client ''page'' ''POST'' 201 (Some ''{a}'')
        (Some ''old''))) = - 1"
    using doJSON_status_code [of example_env "[]" example_client "''page''" "''POST''"
        "Some ''{a}''" "Some ''old''" 201]
    by (simp add: example_sent rejected_def Header_Get_def)
  have w4: "fst (fst (doJSON example_env [] example_client ''broken'' ''POST'' 201 (Some ''{a}'')
        (Some ''old''))) = - 1"
    using doJSON_status_code [of example_env "[]" example_client "''broken''" "''POST''"
        "Some ''{a}''" "Some ''old''" 201]
    by (simp add: example_sent rejected_def Header_Get_def dec)
  have w5: "fst (fst (doJSON example_env [] example_client ''nowhere'' ''POST'' 201 (Some ''{a}'')
        (Some ''old''))) = - 1"
    using doJSON_status_code [of example_env "[]" example_client "''nowhere''" "''POST''"
        "Some ''{a}''" "Some ''old''" 201]
    by (simp add: example_sent)
  have w6: "fst (fst (doJSON example_env [] example_client ''register'' ''POST'' 201 (Some [])
        (Some ''old''))) = - 1"
    using doJSON_status_code [of example_env "[]" example_client "''register''" "''POST''"
        "Some []" "Some ''old''" 201]
    by (simp add: example_sent example_env_fields)
  from w1 w2 w3 w4 w5 w6 show ?thesis by blast
qed

text \<open>
  The claim as stated (every response actually received is returned with its
  non-negative status code) fails: the coordinator answers \<open>page\<close> with the expected
  status 201 and an HTML content type; the response is received, and \<open>doJSON\<close> returns
  \<open>-1\<close>.
\<close>

theorem doJSON_status_code_counterexample:
  "sent example_env [] example_client ''page'' ''POST'' (Some ''{a}'') (Some ''old'')
     = Inr (([example_transport], example_client\<lparr>Transport := Some 0, updateTime := 300\<rparr>),
            Inr \<lparr>StatusCode = 201, Status = ''201 Created'',
                 res_Header = [''Content-Type'' \<mapsto> [''text/html'']],
                 res_Body = ''<html>'', TLS = Some example_tls\<rparr>)
   \<and> fst (doJSON example_env [] example_client ''page'' ''POST'' 201 (Some ''{a}'') (Some ''old''))
     = (- 1, ''Server should return application/json. Got: text/html'', [])"
  by (simp add: doJSON_sent example_sent Header_Get_def)

text \<open>
  Claim C10. When a response is received whose status code differs from the expected
  one, \<open>doJSON\<close> leaves the response target as it was and returns the received status
  code, the status text and the trust chain; neither the content type nor the body of
  the response enters the result.
\<close>

theorem doJSON_unexpected_status:
  assumes "sent e h n uri method request response = Inr (hn, Inr res)"
    and "StatusCode res \<noteq> statusCode"
  shows "snd (snd (doJSON e h n uri method statusCode request response)) = response
       \<and> fst (doJSON e h n uri method statusCode request response)
           = (StatusCode res, Status res, getCAChain e (snd hn) (TLS res))
       \<and> fst (snd (doJSON e h n uri method statusCode request response)) = hn"
  using assms(2) by (simp add: doJSON_sent assms(1))

theorem doJSON_unexpected_status_witness:
  "snd (snd (doJSON example_env [] example_client ''missing'' ''POST'' 201 (Some ''{a}'')
      (Some ''old''))) = Some ''old''
   \<and> fst (doJSON example_env [] example_client ''missing'' ''POST'' 201 (Some ''{a}'')
      (Some ''old''))
     = (404, ''404 Not Found'',
        ''[BEGIN CERTIFICATE]leaf[END][BEGIN CERTIFICATE]ca[END][BEGIN CERTIFICATE]root[END]'')"
  using doJSON_unexpected_status [OF example_sent(4), of 201]
  by (simp add: example_chain)

end
